theory Spec2Isabelle
  imports Complex_Main "HOL-Library.AList" "HOL-Library.Sublist" "HOL-Library.Word"
begin

section \<open>Python values, NumPy arrays and exceptions\<close>

text \<open>
  The server keeps its data in dynamically typed dictionaries.  A value of a
  \<open>parametros\<close> dictionary is a JSON value; dictionaries are association lists in
  insertion order (Python keeps it), and \<open>d[k] = v\<close> is \<open>AList.update k v d\<close>.
  Strings are lists of \<open>char\<close>, one per code point below 256.
\<close>

subsection \<open>Floating-point numbers\<close>

text \<open>
  A float is a rational or one of the three special values of IEEE 754.  Arithmetic on
  rationals is exact: rounding, and overflow of a finite result to infinity, are outside
  the embedding.  The special values follow IEEE 754 as NumPy applies it (a division by
  zero gives an infinity or \<open>nan\<close> and a warning, not an exception).  The sign of a zero
  is not modelled; the only divisions by a zero below divide by the sum of an integer
  array, which is \<open>+0\<close>.
\<close>

datatype flt = Fin rat | PInf | NInf | NaN

fun fadd :: "flt \<Rightarrow> flt \<Rightarrow> flt" where
  "fadd NaN y = NaN"
| "fadd x NaN = NaN"
| "fadd PInf NInf = NaN"
| "fadd NInf PInf = NaN"
| "fadd PInf y = PInf"
| "fadd x PInf = PInf"
| "fadd NInf y = NInf"
| "fadd x NInf = NInf"
| "fadd (Fin a) (Fin b) = Fin (a + b)"

fun fmul :: "flt \<Rightarrow> flt \<Rightarrow> flt" where
  "fmul NaN y = NaN"
| "fmul x NaN = NaN"
| "fmul PInf PInf = PInf"
| "fmul PInf NInf = NInf"
| "fmul NInf PInf = NInf"
| "fmul NInf NInf = PInf"
| "fmul PInf (Fin b) = (if b = 0 then NaN else if 0 < b then PInf else NInf)"
| "fmul NInf (Fin b) = (if b = 0 then NaN else if 0 < b then NInf else PInf)"
| "fmul (Fin a) PInf = (if a = 0 then NaN else if 0 < a then PInf else NInf)"
| "fmul (Fin a) NInf = (if a = 0 then NaN else if 0 < a then NInf else PInf)"
| "fmul (Fin a) (Fin b) = Fin (a * b)"

fun fdiv :: "flt \<Rightarrow> flt \<Rightarrow> flt" where
  "fdiv NaN y = NaN"
| "fdiv x NaN = NaN"
| "fdiv PInf PInf = NaN"
| "fdiv PInf NInf = NaN"
| "fdiv NInf PInf = NaN"
| "fdiv NInf NInf = NaN"
| "fdiv PInf (Fin b) = (if 0 \<le> b then PInf else NInf)"
| "fdiv NInf (Fin b) = (if 0 \<le> b then NInf else PInf)"
| "fdiv (Fin a) PInf = Fin 0"
| "fdiv (Fin a) NInf = Fin 0"
| "fdiv (Fin a) (Fin b) =
     (if b = 0 then (if a = 0 then NaN else if 0 < a then PInf else NInf)
      else Fin (a / b))"

text \<open>The sum of a list of floats (any order of summation gives the same value here).\<close>

definition fsum :: "flt list \<Rightarrow> flt" where
  "fsum xs = foldr fadd xs (Fin 0)"

subsection \<open>Values\<close>

datatype pyval =
    PNone
  | PBool bool
  | PInt int
  | PFloat flt
  | PStr string
  | PList "pyval list"
  | PDict "(string \<times> pyval) list"

text \<open>
  Exceptions the modelled code can raise.  \<open>NumpyError\<close> stands for the
  \<open>ValueError\<close> or \<open>TypeError\<close> that a NumPy call raises on data it cannot turn into
  one numeric array or cannot combine (NumPy 1.24 and later refuse ragged input).
  \<open>ValueError\<close> and \<open>OverflowError\<close> are what \<open>int(x)\<close> raises on \<open>nan\<close> and on an
  infinity.
\<close>

datatype error =
    IndexError
  | KeyError string
  | TypeError
  | ValueError
  | OverflowError
  | ZeroDivisionError
  | NumpyError

text \<open>\<open>isinstance(v, (int, float))\<close>: true of \<open>bool\<close> too, a subclass of \<open>int\<close>.\<close>

fun num_of :: "pyval \<Rightarrow> flt option" where
  "num_of (PBool b) = Some (Fin (if b then 1 else 0))"
| "num_of (PInt i) = Some (Fin (of_int i))"
| "num_of (PFloat x) = Some x"
| "num_of _ = None"

definition is_number :: "pyval \<Rightarrow> bool" where
  "is_number v = (num_of v \<noteq> None)"

text \<open>\<open>isinstance(v, list) and all(isinstance(x, (int, float)) for x in v)\<close>\<close>

fun is_number_list :: "pyval \<Rightarrow> bool" where
  "is_number_list (PList xs) = list_all is_number xs"
| "is_number_list _ = False"

text \<open>\<open>d.get(k, default)\<close>\<close>

definition dict_get :: "('k \<times> 'v) list \<Rightarrow> 'k \<Rightarrow> 'v \<Rightarrow> 'v" where
  "dict_get d k dflt = (case map_of d k of None \<Rightarrow> dflt | Some v \<Rightarrow> v)"

text \<open>A numeric NumPy array of any rank: a scalar (rank 0) or a list of sub-arrays.\<close>

datatype nd = Sc flt | Ar "nd list"

fun shape :: "nd \<Rightarrow> nat list" where
  "shape (Sc x) = []"
| "shape (Ar []) = [0]"
| "shape (Ar (a # as)) = Suc (length as) # shape a"

fun regular :: "nd \<Rightarrow> bool" where
  "regular (Sc x) = True"
| "regular (Ar as) = (list_all regular as \<and> list_all (\<lambda>a. shape a = shape (hd as)) as)"

fun to_nd :: "pyval \<Rightarrow> nd option" where
  "to_nd (PList xs) = map_option Ar (those (map to_nd xs))"
| "to_nd v = map_option Sc (num_of v)"

text \<open>
  \<open>np.array(v)\<close> followed by arithmetic on the result: it succeeds exactly on a number
  or a rectangular nesting of lists of numbers.
\<close>

definition np_array :: "pyval \<Rightarrow> error + nd" where
  "np_array v =
     (case to_nd v of
        None \<Rightarrow> Inl NumpyError
      | Some a \<Rightarrow> if regular a then Inr a else Inl NumpyError)"

fun nd_scale :: "flt \<Rightarrow> nd \<Rightarrow> nd" where
  "nd_scale w (Sc x) = Sc (fmul x w)"
| "nd_scale w (Ar as) = Ar (map (nd_scale w) as)"

text \<open>Elementwise sum of two arrays of one shape (the only use below).\<close>

fun nd_add :: "nd \<Rightarrow> nd \<Rightarrow> nd" and nd_add_list :: "nd list \<Rightarrow> nd list \<Rightarrow> nd list" where
  "nd_add (Sc x) (Sc y) = Sc (fadd x y)"
| "nd_add (Ar as) (Ar bs) = Ar (nd_add_list as bs)"
| "nd_add (Sc x) (Ar bs) = Sc x"
| "nd_add (Ar as) (Sc y) = Ar as"
| "nd_add_list [] bs = []"
| "nd_add_list (a # as) [] = []"
| "nd_add_list (a # as) (b # bs) = nd_add a b # nd_add_list as bs"

text \<open>\<open>np.sum(arrays, axis=0)\<close> on a list of arrays: all of one shape, or an error.\<close>

fun np_sum_axis0 :: "nd list \<Rightarrow> error + nd" where
  "np_sum_axis0 [] = Inr (Sc (Fin 0))"
| "np_sum_axis0 (a # as) =
     (if list_all (\<lambda>b. shape b = shape a) as then Inr (foldl nd_add a as)
      else Inl NumpyError)"

fun tolist :: "nd \<Rightarrow> pyval" where
  "tolist (Sc x) = PFloat x"
| "tolist (Ar as) = PList (map tolist as)"

text \<open>
  \<open>np.average(valores, weights=pesos)\<close> on two lists of one length: the weighted sum
  divided by the sum of the weights, which NumPy refuses when it is zero (and only
  then: a sum that is infinite or \<open>nan\<close> passes the test).
\<close>

definition np_average :: "pyval list \<Rightarrow> flt list \<Rightarrow> error + flt" where
  "np_average valores pesos =
     (case those (map num_of valores) of
        None \<Rightarrow> Inl NumpyError
      | Some vs \<Rightarrow>
          if fsum pesos = Fin 0 then Inl ZeroDivisionError
          else Inr (fdiv (fsum (map2 fmul vs pesos)) (fsum pesos)))"

text \<open>
  \<open>round(x, 3)\<close>: to the nearest multiple of 1/1000, ties to the even one; an infinity
  and \<open>nan\<close> stay.
\<close>

definition round_half_even :: "rat \<Rightarrow> int" where
  "round_half_even x =
     (let f = \<lfloor>x\<rfloor>; d = x - of_int f
      in if d < 1 / 2 then f else if 1 / 2 < d then f + 1
         else if even f then f else f + 1)"

fun py_round3 :: "flt \<Rightarrow> flt" where
  "py_round3 (Fin x) = Fin (of_int (round_half_even (x * 1000)) / 1000)"
| "py_round3 x = x"

section \<open>Data model\<close>

text \<open>
  The dictionary \<open>contribucion\<close> that \<open>procesar_modelo_anonimo\<close> stores.  A sample count
  is a 64-bit signed integer (read with \<open>sint\<close>), the element type that \<open>np.array\<close> gives
  a list of such counts on a 64-bit platform; a count beyond that range makes NumPy
  choose another element type and is outside the embedding.
\<close>

record contribucion =
  c_id :: string
  c_timestamp :: string
  c_giro_hash :: string
  c_parametros :: "(string \<times> pyval) list"
  c_metricas :: "(string \<times> flt) list"
  c_num_muestras :: "64 word"

text \<open>The dictionary an aggregation returns (the fields of \<open>ResultadoAgregado\<close>).\<close>

record modelo_agregado =
  a_tipo_modelo :: string
  parametros_agregados :: "(string \<times> pyval) list"
  num_contribuciones :: nat
  metricas_agregadas :: "(string \<times> flt) list"
  timestamp_agregacion :: string
  confianza :: flt
  version :: string

section \<open>Aggregation\<close>

text \<open>
  \<open>pesos = np.array(pesos) / np.sum(pesos)\<close>, the first step of each of the three
  aggregation functions.  The sum of the 64-bit array wraps around silently (addition
  of words), and the division is the true division of floats: it never raises, and on
  a zero total every weight is an infinity or \<open>nan\<close>.
\<close>

definition np_sum_int64 :: "64 word list \<Rightarrow> int" where
  "np_sum_int64 ns = sint (sum_list ns)"

definition normalizar_pesos :: "64 word list \<Rightarrow> flt list" where
  "normalizar_pesos ns =
     map (\<lambda>n. fdiv (Fin (of_int (sint n))) (Fin (of_int (np_sum_int64 ns)))) ns"

text \<open>\<open>ProcesadorFederado._calcular_confianza\<close>\<close>

fun metricas_promedio :: "contribucion list \<Rightarrow> flt list" where
  "metricas_promedio [] = []"
| "metricas_promedio (contrib # cs) =
     (case map_of (c_metricas contrib) ''r2'' of
        Some r \<Rightarrow> r # metricas_promedio cs
      | None \<Rightarrow>
          (case map_of (c_metricas contrib) ''accuracy'' of
             Some a \<Rightarrow> a # metricas_promedio cs
           | None \<Rightarrow> metricas_promedio cs))"

definition np_mean :: "flt list \<Rightarrow> flt" where
  "np_mean xs = fdiv (fsum xs) (Fin (of_nat (length xs)))"

definition calcular_confianza :: "contribucion list \<Rightarrow> error + flt" where
  "calcular_confianza contribuciones =
     (let n = int (length contribuciones);
          confianza_base = min (9 / 10) (3 / 10 + of_int (n - 3) * (1 / 10))
      in case contribuciones of
           [] \<Rightarrow> Inl IndexError
         | primera # _ \<Rightarrow>
             if c_metricas primera \<noteq> [] then
               (if metricas_promedio contribuciones \<noteq> []
                then Inr (py_round3 (fmul (Fin confianza_base)
                                       (np_mean (metricas_promedio contribuciones))))
                else Inr (py_round3 (Fin confianza_base)))
             else Inr (py_round3 (Fin confianza_base)))"

text \<open>The weighted average of one metric, missing values read as 0.\<close>

definition promedio_metrica :: "contribucion list \<Rightarrow> flt list \<Rightarrow> string \<Rightarrow> error + flt" where
  "promedio_metrica contribuciones pesos metrica =
     np_average (map (\<lambda>c. PFloat (dict_get (c_metricas c) metrica (Fin 0))) contribuciones) pesos"

fun agregar_metricas ::
  "contribucion list \<Rightarrow> flt list \<Rightarrow> string list \<Rightarrow> (string \<times> flt) list
     \<Rightarrow> error + (string \<times> flt) list" where
  "agregar_metricas contribuciones pesos [] acc = Inr acc"
| "agregar_metricas contribuciones pesos (metrica # ms) acc =
     (case promedio_metrica contribuciones pesos metrica of
        Inl e \<Rightarrow> Inl e
      | Inr x \<Rightarrow> agregar_metricas contribuciones pesos ms (AList.update metrica x acc))"

text \<open>
  \<open>ProcesadorFederado._agregar_modelo_generico\<close>: the inner loop of the vector branch.
  \<open>len(arr)\<close> raises on an array of rank 0, and an empty array is skipped.
\<close>

fun recoger_arrays :: "string \<Rightarrow> (contribucion \<times> flt) list \<Rightarrow> error + nd list" where
  "recoger_arrays clave [] = Inr []"
| "recoger_arrays clave ((contrib, peso) # rest) =
     (case np_array (dict_get (c_parametros contrib) clave (PList [])) of
        Inl e \<Rightarrow> Inl e
      | Inr (Sc x) \<Rightarrow> Inl NumpyError
      | Inr (Ar as) \<Rightarrow>
          (case recoger_arrays clave rest of
             Inl e \<Rightarrow> Inl e
           | Inr arrays \<Rightarrow>
               Inr (if as \<noteq> [] then nd_scale peso (Ar as) # arrays else arrays)))"

definition agregar_clave_generico ::
  "contribucion list \<Rightarrow> flt list \<Rightarrow> string \<Rightarrow> pyval \<Rightarrow> (string \<times> pyval) list
     \<Rightarrow> error + (string \<times> pyval) list" where
  "agregar_clave_generico contribuciones pesos clave valor acc =
     (if is_number valor then
        (case np_average (map (\<lambda>c. dict_get (c_parametros c) clave (PInt 0)) contribuciones) pesos of
           Inl e \<Rightarrow> Inl e
         | Inr x \<Rightarrow> Inr (AList.update clave (PFloat x) acc))
      else if is_number_list valor then
        (case recoger_arrays clave (zip contribuciones pesos) of
           Inl e \<Rightarrow> Inl e
         | Inr arrays \<Rightarrow>
             if arrays \<noteq> [] then
               (case np_sum_axis0 arrays of
                  Inl e \<Rightarrow> Inl e
                | Inr s \<Rightarrow> Inr (AList.update clave (tolist s) acc))
             else Inr acc)
      else Inr acc)"

fun agregar_parametros_generico ::
  "contribucion list \<Rightarrow> flt list \<Rightarrow> (string \<times> pyval) list \<Rightarrow> (string \<times> pyval) list
     \<Rightarrow> error + (string \<times> pyval) list" where
  "agregar_parametros_generico contribuciones pesos [] acc = Inr acc"
| "agregar_parametros_generico contribuciones pesos ((clave, valor) # rest) acc =
     (case agregar_clave_generico contribuciones pesos clave valor acc of
        Inl e \<Rightarrow> Inl e
      | Inr acc' \<Rightarrow> agregar_parametros_generico contribuciones pesos rest acc')"

definition agregar_modelo_generico :: "string \<Rightarrow> contribucion list \<Rightarrow> error + modelo_agregado" where
  "agregar_modelo_generico ahora contribuciones =
     (let pesos = normalizar_pesos (map c_num_muestras contribuciones)
      in case contribuciones of
           [] \<Rightarrow> Inl IndexError
         | primera # _ \<Rightarrow>
             (case agregar_parametros_generico contribuciones pesos (c_parametros primera) [] of
                Inl e \<Rightarrow> Inl e
              | Inr params \<Rightarrow>
                  (case agregar_metricas contribuciones pesos (map fst (c_metricas primera)) [] of
                     Inl e \<Rightarrow> Inl e
                   | Inr metrs \<Rightarrow>
                       (case calcular_confianza contribuciones of
                          Inl e \<Rightarrow> Inl e
                        | Inr conf \<Rightarrow>
                            Inr \<lparr> a_tipo_modelo = ''generico'',
                                  parametros_agregados = params,
                                  num_contribuciones = length contribuciones,
                                  metricas_agregadas = metrs,
                                  timestamp_agregacion = ahora,
                                  confianza = conf,
                                  version = ''1.0'' \<rparr>))))"

text \<open>
  The loop shared by the coefficient, confusion-matrix and class-probability branches:
  \<open>np.array(params[clave]) * pesos[i]\<close> for each contribution, in order.
\<close>

fun arrays_ponderados :: "string \<Rightarrow> (contribucion \<times> flt) list \<Rightarrow> error + nd list" where
  "arrays_ponderados clave [] = Inr []"
| "arrays_ponderados clave ((contrib, peso) # rest) =
     (case map_of (c_parametros contrib) clave of
        None \<Rightarrow> Inl (KeyError clave)
      | Some v \<Rightarrow>
          (case np_array v of
             Inl e \<Rightarrow> Inl e
           | Inr a \<Rightarrow>
               (case arrays_ponderados clave rest of
                  Inl e \<Rightarrow> Inl e
                | Inr arrays \<Rightarrow> Inr (nd_scale peso a # arrays))))"

text \<open>
  \<open>if clave in primero: ... parametros_agregados[clave] = np.sum(..., axis=0).tolist()\<close>
\<close>

definition agregar_array ::
  "string \<Rightarrow> contribucion \<Rightarrow> contribucion list \<Rightarrow> flt list \<Rightarrow> (string \<times> pyval) list
     \<Rightarrow> error + (string \<times> pyval) list" where
  "agregar_array clave primera contribuciones pesos acc =
     (if map_of (c_parametros primera) clave \<noteq> None then
        (case arrays_ponderados clave (zip contribuciones pesos) of
           Inl e \<Rightarrow> Inl e
         | Inr arrays \<Rightarrow>
             (case np_sum_axis0 arrays of
                Inl e \<Rightarrow> Inl e
              | Inr s \<Rightarrow> Inr (AList.update clave (tolist s) acc)))
      else Inr acc)"

text \<open>
  \<open>int(x)\<close> on a float: truncation towards zero; \<open>nan\<close> and the infinities have no
  integer.
\<close>

fun py_int :: "flt \<Rightarrow> error + int" where
  "py_int (Fin x) = Inr (if 0 \<le> x then \<lfloor>x\<rfloor> else \<lceil>x\<rceil>)"
| "py_int NaN = Inl ValueError"
| "py_int x = Inl OverflowError"

text \<open>
  \<open>params["arboles"][:max(1, int(len(params["arboles"]) * peso))]\<close>, as the items that
  \<open>extend\<close> appends.  A string has a length and a slice, and \<open>extend\<close> appends its
  characters; a dictionary has a length but no slice (a \<open>TypeError\<close> up to Python 3.11).
\<close>

fun subset_arboles :: "pyval \<Rightarrow> flt \<Rightarrow> error + pyval list" where
  "subset_arboles (PList xs) peso =
     (case py_int (fmul (Fin (of_nat (length xs))) peso) of
        Inl e \<Rightarrow> Inl e
      | Inr num_arboles \<Rightarrow> Inr (take (nat (max 1 num_arboles)) xs))"
| "subset_arboles (PStr s) peso =
     (case py_int (fmul (Fin (of_nat (length s))) peso) of
        Inl e \<Rightarrow> Inl e
      | Inr num_arboles \<Rightarrow> Inr (map (\<lambda>c. PStr [c]) (take (nat (max 1 num_arboles)) s)))"
| "subset_arboles v peso = Inl TypeError"

fun recoger_arboles :: "(contribucion \<times> flt) list \<Rightarrow> error + pyval list" where
  "recoger_arboles [] = Inr []"
| "recoger_arboles ((contrib, peso) # rest) =
     (case map_of (c_parametros contrib) ''arboles'' of
        None \<Rightarrow> Inl (KeyError ''arboles'')
      | Some v \<Rightarrow>
          (case subset_arboles v peso of
             Inl e \<Rightarrow> Inl e
           | Inr xs \<Rightarrow>
               (case recoger_arboles rest of
                  Inl e \<Rightarrow> Inl e
                | Inr ys \<Rightarrow> Inr (xs @ ys))))"

definition agregar_arboles ::
  "contribucion \<Rightarrow> contribucion list \<Rightarrow> flt list \<Rightarrow> (string \<times> pyval) list
     \<Rightarrow> error + (string \<times> pyval) list" where
  "agregar_arboles primera contribuciones pesos acc =
     (if map_of (c_parametros primera) ''arboles'' \<noteq> None then
        (case recoger_arboles (zip contribuciones pesos) of
           Inl e \<Rightarrow> Inl e
         | Inr arboles_agregados \<Rightarrow> Inr (AList.update ''arboles'' (PList arboles_agregados) acc))
      else Inr acc)"

text \<open>\<open>ProcesadorFederado._agregar_modelo_prediccion\<close>\<close>

definition agregar_modelo_prediccion :: "string \<Rightarrow> contribucion list \<Rightarrow> error + modelo_agregado" where
  "agregar_modelo_prediccion ahora contribuciones =
     (let pesos = normalizar_pesos (map c_num_muestras contribuciones)
      in case contribuciones of
           [] \<Rightarrow> Inl IndexError
         | primera # _ \<Rightarrow>
             (case agregar_array ''coeficientes'' primera contribuciones pesos [] of
                Inl e \<Rightarrow> Inl e
              | Inr params1 \<Rightarrow>
                  (case agregar_arboles primera contribuciones pesos params1 of
                     Inl e \<Rightarrow> Inl e
                   | Inr params \<Rightarrow>
                       (case agregar_metricas contribuciones pesos [''mse'', ''r2'', ''mae''] [] of
                          Inl e \<Rightarrow> Inl e
                        | Inr metrs \<Rightarrow>
                            (case calcular_confianza contribuciones of
                               Inl e \<Rightarrow> Inl e
                             | Inr conf \<Rightarrow>
                                 Inr \<lparr> a_tipo_modelo = ''prediccion_demanda'',
                                       parametros_agregados = params,
                                       num_contribuciones = length contribuciones,
                                       metricas_agregadas = metrs,
                                       timestamp_agregacion = ahora,
                                       confianza = conf,
                                       version = ''1.0'' \<rparr>)))))"

text \<open>\<open>ProcesadorFederado._agregar_modelo_clasificacion\<close>\<close>

definition agregar_modelo_clasificacion :: "string \<Rightarrow> contribucion list \<Rightarrow> error + modelo_agregado" where
  "agregar_modelo_clasificacion ahora contribuciones =
     (let pesos = normalizar_pesos (map c_num_muestras contribuciones)
      in case contribuciones of
           [] \<Rightarrow> Inl IndexError
         | primera # _ \<Rightarrow>
             (case agregar_array ''matriz_confusion'' primera contribuciones pesos [] of
                Inl e \<Rightarrow> Inl e
              | Inr params1 \<Rightarrow>
                  (case agregar_array ''probabilidades_clase'' primera contribuciones pesos params1 of
                     Inl e \<Rightarrow> Inl e
                   | Inr params \<Rightarrow>
                       (case agregar_metricas contribuciones pesos
                               [''accuracy'', ''precision'', ''recall'', ''f1''] [] of
                          Inl e \<Rightarrow> Inl e
                        | Inr metrs \<Rightarrow>
                            (case calcular_confianza contribuciones of
                               Inl e \<Rightarrow> Inl e
                             | Inr conf \<Rightarrow>
                                 Inr \<lparr> a_tipo_modelo = ''clasificacion_viajero'',
                                       parametros_agregados = params,
                                       num_contribuciones = length contribuciones,
                                       metricas_agregadas = metrs,
                                       timestamp_agregacion = ahora,
                                       confianza = conf,
                                       version = ''1.0'' \<rparr>)))))"

section \<open>Privacy noise\<close>

text \<open>
  \<open>np.random.laplace(0, scale)\<close> is \<open>0 + scale * z\<close> for a standard Laplace variate
  \<open>z\<close>.  The generator is the sequence \<open>z 0, z 1, ...\<close> of its standard variates and
  a position in it; a call with \<open>size=n\<close> takes the next \<open>n\<close> of them.  NumPy refuses
  a negative scale, and \<open>1 / epsilon\<close> raises on a zero \<open>epsilon\<close>.
\<close>

definition laplace :: "(nat \<Rightarrow> rat) \<Rightarrow> nat \<Rightarrow> rat \<Rightarrow> rat" where
  "laplace z pos scale = 0 + scale * z pos"

definition escala_ruido :: "rat \<Rightarrow> error + rat" where
  "escala_ruido epsilon =
     (if epsilon = 0 then Inl ZeroDivisionError
      else if 1 / epsilon < 0 then Inl NumpyError
      else Inr (1 / epsilon))"

text \<open>
  The body of the loop of \<open>_aplicar_ruido_diferencial\<close> for one entry: the new value
  and the generator's new position.
\<close>

fun ruido_lista :: "(nat \<Rightarrow> rat) \<Rightarrow> nat \<Rightarrow> rat \<Rightarrow> flt list \<Rightarrow> pyval list" where
  "ruido_lista z pos scale [] = []"
| "ruido_lista z pos scale (x # xs) =
     PFloat (fadd x (Fin (laplace z pos scale))) # ruido_lista z (Suc pos) scale xs"

definition ruido_valor :: "rat \<Rightarrow> (nat \<Rightarrow> rat) \<Rightarrow> nat \<Rightarrow> pyval \<Rightarrow> error + (pyval \<times> nat)" where
  "ruido_valor epsilon z pos valor =
     (case num_of valor of
        Some x \<Rightarrow>
          (case escala_ruido epsilon of
             Inl e \<Rightarrow> Inl e
           | Inr scale \<Rightarrow> Inr (PFloat (fadd x (Fin (laplace z pos scale))), Suc pos))
      | None \<Rightarrow>
          (case valor of
             PList xs \<Rightarrow>
               (case those (map num_of xs) of
                  Some nums \<Rightarrow>
                    (case escala_ruido epsilon of
                       Inl e \<Rightarrow> Inl e
                     | Inr scale \<Rightarrow>
                         Inr (PList (ruido_lista z pos scale nums), pos + length nums))
                | None \<Rightarrow> Inr (valor, pos))
           | _ \<Rightarrow> Inr (valor, pos)))"

text \<open>
  The loop over \<open>modelo["parametros_agregados"].items()\<close>: each assignment replaces the
  value of the entry being visited, so the keys and their order stay.
\<close>

fun ruido_parametros ::
  "rat \<Rightarrow> (nat \<Rightarrow> rat) \<Rightarrow> nat \<Rightarrow> (string \<times> pyval) list
     \<Rightarrow> error + ((string \<times> pyval) list \<times> nat)" where
  "ruido_parametros epsilon z pos [] = Inr ([], pos)"
| "ruido_parametros epsilon z pos ((clave, valor) # rest) =
     (case ruido_valor epsilon z pos valor of
        Inl e \<Rightarrow> Inl e
      | Inr (nuevo, pos') \<Rightarrow>
          (case ruido_parametros epsilon z pos' rest of
             Inl e \<Rightarrow> Inl e
           | Inr (rest', pos'') \<Rightarrow> Inr ((clave, nuevo) # rest', pos'')))"

text \<open>\<open>ProcesadorFederado._aplicar_ruido_diferencial\<close>\<close>

definition aplicar_ruido_diferencial ::
  "rat \<Rightarrow> (nat \<Rightarrow> rat) \<Rightarrow> nat \<Rightarrow> modelo_agregado \<Rightarrow> error + (modelo_agregado \<times> nat)" where
  "aplicar_ruido_diferencial epsilon z pos modelo =
     (case ruido_parametros epsilon z pos (parametros_agregados modelo) of
        Inl e \<Rightarrow> Inl e
      | Inr (params, pos') \<Rightarrow> Inr (modelo\<lparr>parametros_agregados := params\<rparr>, pos'))"

section \<open>The processor's state\<close>

text \<open>
  \<open>ProcesadorFederado\<close>: the registry of aggregated models, the contributions per model
  type and the privacy configuration, with the position of the noise generator.  The
  JSON files that \<open>_guardar_modelo_agregado\<close> and \<open>_guardar_contribucion_segura\<close> write
  are not part of the state: both writes come after the updates modelled here.
\<close>

record configuracion =
  min_contribuciones :: nat
  ruido_diferencial :: bool
  epsilon :: rat
  retencion_dias :: nat

record procesador =
  modelos_activos :: "string \<rightharpoonup> modelo_agregado"
  contribuciones :: "string \<rightharpoonup> contribucion list"
  configuracion_privacidad :: configuracion
  ruido_pos :: nat

definition procesador_inicial :: procesador where
  "procesador_inicial =
     \<lparr> modelos_activos = Map.empty,
       contribuciones = Map.empty,
       configuracion_privacidad =
         \<lparr> min_contribuciones = 3, ruido_diferencial = True, epsilon = 1, retencion_dias = 90 \<rparr>,
       ruido_pos = 0 \<rparr>"

text \<open>The dispatch on the model type in \<open>_agregar_modelo\<close>.\<close>

definition agregar_por_tipo :: "string \<Rightarrow> string \<Rightarrow> contribucion list \<Rightarrow> error + modelo_agregado" where
  "agregar_por_tipo ahora tipo cs =
     (if tipo = ''prediccion_demanda'' then agregar_modelo_prediccion ahora cs
      else if tipo = ''clasificacion_viajero'' then agregar_modelo_clasificacion ahora cs
      else agregar_modelo_generico ahora cs)"

text \<open>
  \<open>ProcesadorFederado._agregar_modelo\<close>: the exception raised, if any, and the state
  left behind.
\<close>

definition agregar_modelo ::
  "(nat \<Rightarrow> rat) \<Rightarrow> string \<Rightarrow> string \<Rightarrow> procesador \<Rightarrow> error option \<times> procesador" where
  "agregar_modelo z ahora tipo s =
     (case contribuciones s tipo of
        None \<Rightarrow> (Some (KeyError tipo), s)
      | Some cs \<Rightarrow>
          if length cs < min_contribuciones (configuracion_privacidad s) then (None, s)
          else
            (case agregar_por_tipo ahora tipo cs of
               Inl e \<Rightarrow> (Some e, s)
             | Inr modelo \<Rightarrow>
                 (case (if ruido_diferencial (configuracion_privacidad s)
                        then aplicar_ruido_diferencial (epsilon (configuracion_privacidad s)) z
                               (ruido_pos s) modelo
                        else Inr (modelo, ruido_pos s)) of
                    Inl e \<Rightarrow> (Some e, s)
                  | Inr (modelo', pos') \<Rightarrow>
                      (None, s\<lparr>modelos_activos := (modelos_activos s)(tipo \<mapsto> modelo'),
                                ruido_pos := pos'\<rparr>))))"

text \<open>
  \<open>ModeloFederado\<close>, the request body of a submission, with a sample count in the
  64-bit range of the stored contribution.
\<close>

record ModeloFederado =
  tipo_modelo :: string
  parametros :: "(string \<times> pyval) list"
  giro_hash :: string
  timestamp :: string
  metricas_validacion :: "(string \<times> flt) list"
  version_algoritmo :: string
  num_muestras_entrenamiento :: "64 word"

text \<open>\<open>ProcesadorFederado.procesar_modelo_anonimo\<close>\<close>

definition procesar_modelo_anonimo ::
  "(nat \<Rightarrow> rat) \<Rightarrow> string \<Rightarrow> ModeloFederado \<Rightarrow> string \<Rightarrow> procesador \<Rightarrow> error option \<times> procesador" where
  "procesar_modelo_anonimo z ahora modelo contribucion_id s =
     (let previas = (case contribuciones s (tipo_modelo modelo) of None \<Rightarrow> [] | Some cs \<Rightarrow> cs);
          contribucion =
            \<lparr> c_id = contribucion_id,
              c_timestamp = timestamp modelo,
              c_giro_hash = giro_hash modelo,
              c_parametros = parametros modelo,
              c_metricas = metricas_validacion modelo,
              c_num_muestras = num_muestras_entrenamiento modelo \<rparr>;
          s' = s\<lparr>contribuciones := (contribuciones s)(tipo_modelo modelo \<mapsto> previas @ [contribucion])\<rparr>
      in if min_contribuciones (configuracion_privacidad s) \<le> length (previas @ [contribucion])
         then agregar_modelo z ahora (tipo_modelo modelo) s'
         else (None, s'))"

text \<open>\<open>ProcesadorFederado.obtener_modelo_agregado\<close>: \<open>None\<close> is the not-found signal.\<close>

definition obtener_modelo_agregado :: "procesador \<Rightarrow> string \<Rightarrow> modelo_agregado option" where
  "obtener_modelo_agregado s tipo = modelos_activos s tipo"

section \<open>The anonymization gate\<close>

text \<open>
  \<open>json.dumps(v, default=str)\<close> with the default separators and \<open>ensure_ascii\<close>: a
  printable ASCII character stands for itself, the quote and the backslash are escaped,
  the control characters have their short escapes or \<open>\u00XX\<close>, and every other code
  point below 256 is \<open>\u00XX\<close>.  The decimal text of a finite float is \<open>float_repr\<close>,
  a parameter (the rationals have no shortest round-trip representation); the special
  values are written \<open>Infinity\<close>, \<open>-Infinity\<close> and \<open>NaN\<close>.
\<close>

text \<open>
  The test \<open>a in b\<close> on two strings is \<open>sublist a b\<close>: \<open>a\<close> occurs in \<open>b\<close> as a contiguous
  run of characters.
\<close>

definition hex_digit :: "nat \<Rightarrow> char" where
  "hex_digit n = ''0123456789abcdef'' ! (n mod 16)"

definition escape_char :: "char \<Rightarrow> string" where
  "escape_char c =
     (let n = (of_char c :: nat) in
      if n = 34 then [CHR 0x5C, CHR 0x22]
      else if n = 92 then [CHR 0x5C, CHR 0x5C]
      else if n = 10 then [CHR 0x5C, CHR ''n'']
      else if n = 13 then [CHR 0x5C, CHR ''r'']
      else if n = 9 then [CHR 0x5C, CHR ''t'']
      else if n = 8 then [CHR 0x5C, CHR ''b'']
      else if n = 12 then [CHR 0x5C, CHR ''f'']
      else if n < 32 \<or> 126 < n then
        [CHR 0x5C, CHR ''u'', CHR ''0'', CHR ''0'', hex_digit (n div 16), hex_digit n]
      else [c])"

definition encode_basestring_ascii :: "string \<Rightarrow> string" where
  "encode_basestring_ascii s = [CHR 0x22] @ concat (map escape_char s) @ [CHR 0x22]"

text \<open>The decimal text of an integer, as \<open>json.dumps\<close> writes it.\<close>

fun digitos :: "nat \<Rightarrow> string" where
  "digitos n = (if n < 10 then [hex_digit n] else digitos (n div 10) @ [hex_digit (n mod 10)])"

definition repr_int :: "int \<Rightarrow> string" where
  "repr_int i = (if i < 0 then CHR ''-'' # digitos (nat (- i)) else digitos (nat i))"

text \<open>\<open>sep.join(parts)\<close>\<close>

fun join :: "string \<Rightarrow> string list \<Rightarrow> string" where
  "join sep [] = []"
| "join sep [x] = x"
| "join sep (x # y # ys) = x @ sep @ join sep (y # ys)"

fun json_dumps :: "(rat \<Rightarrow> string) \<Rightarrow> pyval \<Rightarrow> string"
  and json_elems :: "(rat \<Rightarrow> string) \<Rightarrow> pyval list \<Rightarrow> string list"
  and json_items :: "(rat \<Rightarrow> string) \<Rightarrow> (string \<times> pyval) list \<Rightarrow> string list" where
  "json_dumps fr PNone = ''null''"
| "json_dumps fr (PBool b) = (if b then ''true'' else ''false'')"
| "json_dumps fr (PInt i) = repr_int i"
| "json_dumps fr (PFloat (Fin r)) = fr r"
| "json_dumps fr (PFloat PInf) = ''Infinity''"
| "json_dumps fr (PFloat NInf) = ''-Infinity''"
| "json_dumps fr (PFloat NaN) = ''NaN''"
| "json_dumps fr (PStr s) = encode_basestring_ascii s"
| "json_dumps fr (PList xs) = ''['' @ join '', '' (json_elems fr xs) @ '']''"
| "json_dumps fr (PDict kvs) = ''{'' @ join '', '' (json_items fr kvs) @ ''}''"
| "json_elems fr [] = []"
| "json_elems fr (x # xs) = json_dumps fr x # json_elems fr xs"
| "json_items fr [] = []"
| "json_items fr ((k, v) # kvs) =
     (encode_basestring_ascii k @ '': '' @ json_dumps fr v) # json_items fr kvs"

text \<open>
  \<open>str.lower()\<close> on code points below 256: the ASCII capitals and the Latin-1 capitals
  (all of \<open>0xC0..0xDE\<close> but the multiplication sign) move up by 32.
\<close>

definition lower_char :: "char \<Rightarrow> char" where
  "lower_char c =
     (let n = (of_char c :: nat) in
      if (65 \<le> n \<and> n \<le> 90) \<or> (192 \<le> n \<and> n \<le> 222 \<and> n \<noteq> 215) then char_of (n + 32)
      else c)"

definition lower :: "string \<Rightarrow> string" where
  "lower s = map lower_char s"

text \<open>
  The validators of \<open>ModeloFederado\<close> (\<open>validar_giro_hash\<close> and \<open>validar_parametros\<close>
  of the request model), which run when the request body is parsed, before the handler:
  \<open>True\<close> when the field is accepted, \<open>False\<close> when the validator raises.
\<close>

definition validar_giro_hash :: "string \<Rightarrow> bool" where
  "validar_giro_hash v = (if length v < 16 then False else True)"

definition claves_prohibidas :: "string list" where
  "claves_prohibidas = [''empresa_id'', ''nombre'', ''direccion'', ''telefono'', ''email'']"

fun validar_parametros :: "(string \<times> pyval) list \<Rightarrow> bool" where
  "validar_parametros [] = True"
| "validar_parametros ((clave, valor) # rest) =
     (if list_ex (\<lambda>prohibida. sublist prohibida (lower clave)) claves_prohibidas then False
      else validar_parametros rest)"

definition identificadores_prohibidos :: "string list" where
  "identificadores_prohibidos =
     [''empresa'', ''nombre'', ''direccion'', ''telefono'', ''email'',
      ''rfc'', ''razon_social'', ''contacto'']"

text \<open>
  The loop \<open>for identificador in identificadores_prohibidos\<close> of
  \<open>validar_anonimizacion\<close>: \<open>True\<close> when it reaches its \<open>return False\<close>.
\<close>

fun algun_identificador :: "string list \<Rightarrow> string \<Rightarrow> bool" where
  "algun_identificador [] parametros_str = False"
| "algun_identificador (identificador # rest) parametros_str =
     (if sublist identificador parametros_str then True
      else algun_identificador rest parametros_str)"

text \<open>\<open>ProcesadorFederado.validar_anonimizacion\<close>\<close>

definition validar_anonimizacion :: "(rat \<Rightarrow> string) \<Rightarrow> ModeloFederado \<Rightarrow> bool" where
  "validar_anonimizacion fr modelo =
     (if length (giro_hash modelo) < 16 then False
      else if algun_identificador identificadores_prohibidos
                (lower (json_dumps fr (PDict (parametros modelo)))) then False
      else if sint (num_muestras_entrenamiento modelo) < 50 then False
      else True)"

section \<open>The submit-model endpoint\<close>

text \<open>
  What the handler can raise: the \<open>HTTPException\<close> of FastAPI with its status code and
  detail, and the \<open>OSError\<close> of a failed write of the metadata file.
\<close>

datatype excepcion = HTTPException nat string | OSError

record respuesta =
  status :: string
  contribucion_id :: string
  mensaje :: string
  r_timestamp :: string

text \<open>The file \<open>metadatos_seguros\<close> that \<open>guardar_metadatos_contribucion\<close> writes.\<close>

record metadatos_seguros =
  ms_id :: string
  ms_timestamp :: string
  ms_tipo_modelo :: string
  ms_giro_hash_parcial :: string
  ms_metricas_validacion :: "(string \<times> flt) list"
  ms_num_parametros :: nat

text \<open>
  What a request reads from outside: the fresh contribution id (a hash of the timestamp
  and a random UUID), the clock, whether the metadata file can be written, and the
  text \<open>str(e)\<close> of an exception (it depends on the Starlette version).
\<close>

record entorno =
  nuevo_id :: string
  ahora :: string
  disco_ok :: bool
  str_exc :: "excepcion \<Rightarrow> string"

text \<open>
  The server: the processor, the background tasks that FastAPI runs after a successful
  response (a response built from an exception carries none), and the metadata files.
\<close>

record servidor =
  procesador_federado :: procesador
  tareas :: "(ModeloFederado \<times> string) list"
  almacen :: "(string \<times> metadatos_seguros) list"

text \<open>The detail of the 400 error: "El modelo no cumple con los requisitos de anonimizacion",
  with the accented o of the source (code point 243).\<close>

definition detalle_anonimizacion :: string where
  "detalle_anonimizacion =
     ''El modelo no cumple con los requisitos de anonimizaci'' @ [CHR 0xF3] @ ''n''"

text \<open>The \<open>try\<close> block of \<open>enviar_modelo_federado\<close>.\<close>

definition cuerpo_enviar_modelo ::
  "(rat \<Rightarrow> string) \<Rightarrow> entorno \<Rightarrow> ModeloFederado \<Rightarrow> servidor \<Rightarrow> excepcion + (respuesta \<times> servidor)" where
  "cuerpo_enviar_modelo fr env modelo srv =
     (if \<not> validar_anonimizacion fr modelo then
        Inl (HTTPException 400 detalle_anonimizacion)
      else if \<not> disco_ok env then Inl OSError
      else
        Inr (\<lparr> status = ''recibido'',
                contribucion_id = nuevo_id env,
                mensaje = ''Modelo recibido y proces'' @ [CHR 0xE1] @ ''ndose de forma segura'',
                r_timestamp = ahora env \<rparr>,
             srv\<lparr> tareas := tareas srv @ [(modelo, nuevo_id env)],
                  almacen :=
                    AList.update (nuevo_id env)
                      \<lparr> ms_id = nuevo_id env,
                        ms_timestamp = timestamp modelo,
                        ms_tipo_modelo = tipo_modelo modelo,
                        ms_giro_hash_parcial = take 8 (giro_hash modelo) @ ''...'',
                        ms_metricas_validacion = metricas_validacion modelo,
                        ms_num_parametros = 0 \<rparr>
                      (almacen srv) \<rparr>))"

text \<open>
  \<open>enviar_modelo_federado\<close>: the \<open>try\<close> block under its \<open>except Exception\<close> clause.
  \<open>Inl\<close> is the exception that leaves the handler, \<open>Inr\<close> the response body.
\<close>

definition enviar_modelo_federado ::
  "(rat \<Rightarrow> string) \<Rightarrow> entorno \<Rightarrow> ModeloFederado \<Rightarrow> servidor \<Rightarrow> (excepcion + respuesta) \<times> servidor" where
  "enviar_modelo_federado fr env modelo srv =
     (case cuerpo_enviar_modelo fr env modelo srv of
        Inr (r, srv') \<Rightarrow> (Inr r, srv')
      | Inl e \<Rightarrow> (Inl (HTTPException 500 (''Error procesando modelo: '' @ str_exc env e)), srv))"

text \<open>The status code the client sees.\<close>

fun codigo_http :: "excepcion + respuesta \<Rightarrow> nat" where
  "codigo_http (Inr r) = 200"
| "codigo_http (Inl (HTTPException c d)) = c"
| "codigo_http (Inl OSError) = 500"

text \<open>
  FastAPI runs the background tasks of a response in order, each at its own time
  \<open>reloj k\<close>; an exception of \<open>procesar_modelo_anonimo\<close> is logged and leaves the state
  as it was when raised.
\<close>

fun ejecutar_tareas ::
  "(nat \<Rightarrow> rat) \<Rightarrow> (nat \<Rightarrow> string) \<Rightarrow> nat \<Rightarrow> (ModeloFederado \<times> string) list
     \<Rightarrow> procesador \<Rightarrow> procesador" where
  "ejecutar_tareas z reloj k [] s = s"
| "ejecutar_tareas z reloj k ((modelo, cid) # rest) s =
     ejecutar_tareas z reloj (Suc k) rest (snd (procesar_modelo_anonimo z (reloj k) modelo cid s))"

section \<open>Specification-side functions and scenario inputs\<close>

text \<open>The base confidence for \<open>n\<close> contributions: \<open>min(0.9, 0.3 + (n - 3) * 0.1)\<close>.\<close>

definition confianza_base :: "nat \<Rightarrow> rat" where
  "confianza_base n = min (9 / 10) (3 / 10 + of_int (int n - 3) * (1 / 10))"

text \<open>The primary quality metric of a contribution: \<open>r2\<close>, else \<open>accuracy\<close>, else none.\<close>

definition metrica_primaria :: "contribucion \<Rightarrow> flt option" where
  "metrica_primaria c =
     (case map_of (c_metricas c) ''r2'' of
        Some r \<Rightarrow> Some r
      | None \<Rightarrow> map_of (c_metricas c) ''accuracy'')"

text \<open>A contribution with one scalar parameter \<open>coef\<close>, and the request that carries it.\<close>

definition contrib_escalar :: "64 word \<Rightarrow> int \<Rightarrow> contribucion" where
  "contrib_escalar n v =
     \<lparr> c_id = ''c'', c_timestamp = ''t'', c_giro_hash = ''0123456789abcdef'',
       c_parametros = [(''coef'', PInt v)], c_metricas = [], c_num_muestras = n \<rparr>"

definition modelo_escalar :: "64 word \<Rightarrow> int \<Rightarrow> ModeloFederado" where
  "modelo_escalar n v =
     \<lparr> tipo_modelo = ''optimizacion_precios'', parametros = [(''coef'', PInt v)],
       giro_hash = ''0123456789abcdef'', timestamp = ''t'', metricas_validacion = [],
       version_algoritmo = ''1.0'', num_muestras_entrenamiento = n \<rparr>"

text \<open>A contribution with no parameters and the given validation metrics.\<close>

definition contrib_metricas :: "64 word \<Rightarrow> (string \<times> flt) list \<Rightarrow> contribucion" where
  "contrib_metricas n ms =
     \<lparr> c_id = ''c'', c_timestamp = ''t'', c_giro_hash = ''0123456789abcdef'',
       c_parametros = [], c_metricas = ms, c_num_muestras = n \<rparr>"

text \<open>The default configuration with the noise switched off.\<close>

definition procesador_sin_ruido :: procesador where
  "procesador_sin_ruido =
     procesador_inicial\<lparr>configuracion_privacidad :=
       (configuracion_privacidad procesador_inicial)\<lparr>ruido_diferencial := False\<rparr>\<rparr>"

text \<open>A contribution with the given sample count, parameters and metrics.\<close>

definition contrib_completa ::
  "64 word \<Rightarrow> (string \<times> pyval) list \<Rightarrow> (string \<times> flt) list \<Rightarrow> contribucion" where
  "contrib_completa n ps ms =
     \<lparr> c_id = ''c'', c_timestamp = ''t'', c_giro_hash = ''0123456789abcdef'',
       c_parametros = ps, c_metricas = ms, c_num_muestras = n \<rparr>"

text \<open>The sample counts of a contribution list, as integers.\<close>

definition muestras :: "contribucion list \<Rightarrow> int list" where
  "muestras cs = map (\<lambda>c. sint (c_num_muestras c)) cs"

text \<open>
  The weights of a contribution list: each sample count over the sum of all of them,
  the sum taken in the integers (it does not wrap around).
\<close>

definition pesos_de :: "contribucion list \<Rightarrow> rat list" where
  "pesos_de cs = map (\<lambda>c. of_int (sint (c_num_muestras c)) / of_int (sum_list (muestras cs))) cs"

text \<open>The number a contribution supplies for a scalar key: 0 when the key is missing, none when the
  value under the key is not a number.\<close>

definition valor_o_cero :: "string \<Rightarrow> contribucion \<Rightarrow> flt option" where
  "valor_o_cero k c = (case map_of (c_parametros c) k of None \<Rightarrow> Some (Fin 0) | Some v \<Rightarrow> num_of v)"

text \<open>The value a contribution supplies for a metric: 0 when the metric is missing.\<close>

definition metrica_o_cero :: "string \<Rightarrow> contribucion \<Rightarrow> flt" where
  "metrica_o_cero k c = (case map_of (c_metricas c) k of None \<Rightarrow> Fin 0 | Some x \<Rightarrow> x)"


text \<open>The aggregate of the scenario in which the second of three contributions has neither the
  parameter nor the metric of the first.\<close>

definition modelo_generico_esperado :: modelo_agregado where
  "modelo_generico_esperado =
     \<lparr> a_tipo_modelo = ''generico'', parametros_agregados = [(''coef'', PFloat (Fin 4))],
       num_contribuciones = 3, metricas_agregadas = [(''r2'', Fin (3 / 5))],
       timestamp_agregacion = ''t'', confianza = Fin (27 / 100), version = ''1.0'' \<rparr>"

text \<open>The numeric value of a number (0 for anything else).\<close>

definition valor_num :: "pyval \<Rightarrow> flt" where
  "valor_num v = (case num_of v of Some x \<Rightarrow> x | None \<Rightarrow> Fin 0)"





text \<open>A sequence of variates for the scenarios: 1, 2, 3, ...\<close>

definition variates_prueba :: "nat \<Rightarrow> rat" where
  "variates_prueba k = of_nat k + 1"

text \<open>The coefficient vector of a contribution: the list under \<open>coeficientes\<close> when it is a list
  of numbers.\<close>

definition vector_coeficientes :: "contribucion \<Rightarrow> pyval list option" where
  "vector_coeficientes c =
     (case map_of (c_parametros c) ''coeficientes'' of
        Some (PList xs) \<Rightarrow> if list_all is_number xs then Some xs else None
      | _ \<Rightarrow> None)"

text \<open>A contribution to the demand-prediction model with the given coefficient vector.\<close>

definition contrib_coef :: "64 word \<Rightarrow> int list \<Rightarrow> contribucion" where
  "contrib_coef n xs =
     \<lparr> c_id = ''c'', c_timestamp = ''t'', c_giro_hash = ''0123456789abcdef'',
       c_parametros = [(''coeficientes'', PList (map PInt xs)), (''arboles'', PList [PStr ''a''])],
       c_metricas = [(''r2'', Fin (1 / 2))], c_num_muestras = n \<rparr>"

text \<open>The request that submits a coefficient vector to the demand-prediction model.\<close>

definition modelo_coef :: "64 word \<Rightarrow> int list \<Rightarrow> ModeloFederado" where
  "modelo_coef n xs =
     \<lparr> tipo_modelo = ''prediccion_demanda'', parametros = [(''coeficientes'', PList (map PInt xs))],
       giro_hash = ''0123456789abcdef'', timestamp = ''t'', metricas_validacion = [(''r2'', Fin (1 / 2))],
       version_algoritmo = ''1.0'', num_muestras_entrenamiento = n \<rparr>"

text \<open>The contributions stored for a model type (none when the type has no list yet).\<close>

definition almacenadas :: "procesador \<Rightarrow> string \<Rightarrow> contribucion list" where
  "almacenadas s tipo = (case contribuciones s tipo of None \<Rightarrow> [] | Some cs \<Rightarrow> cs)"

text \<open>The dictionary that \<open>procesar_modelo_anonimo\<close> builds from a request and its id.\<close>

definition contribucion_de :: "ModeloFederado \<Rightarrow> string \<Rightarrow> contribucion" where
  "contribucion_de modelo cid =
     \<lparr> c_id = cid, c_timestamp = timestamp modelo, c_giro_hash = giro_hash modelo,
       c_parametros = parametros modelo, c_metricas = metricas_validacion modelo,
       c_num_muestras = num_muestras_entrenamiento modelo \<rparr>"

text \<open>The snapshot an aggregation run computes from a contribution list alone: the aggregate of
  the type, with the noise when it is enabled; none when the aggregation or the noise raises.\<close>

definition instantanea ::
  "(nat \<Rightarrow> rat) \<Rightarrow> string \<Rightarrow> configuracion \<Rightarrow> nat \<Rightarrow> string \<Rightarrow> contribucion list \<Rightarrow> modelo_agregado option" where
  "instantanea z t cfg pos tipo cs =
     (case agregar_por_tipo t tipo cs of
        Inl e \<Rightarrow> None
      | Inr a \<Rightarrow>
          if ruido_diferencial cfg then
            (case aplicar_ruido_diferencial (epsilon cfg) z pos a of
               Inl e \<Rightarrow> None
             | Inr (a', pos') \<Rightarrow> Some a')
          else Some a)"

text \<open>The invariant of the registry: a type has an aggregated model only if its stored
  contributions have reached the quorum.\<close>

definition quorum_cumplido :: "procesador \<Rightarrow> bool" where
  "quorum_cumplido s =
     (\<forall>tipo. modelos_activos s tipo \<noteq> None \<longrightarrow>
        min_contribuciones (configuracion_privacidad s) \<le> length (almacenadas s tipo))"

text \<open>A rendering of floats for the scenarios (no scenario below serialises a float).\<close>

definition repr_fijo :: "rat \<Rightarrow> string" where
  "repr_fijo r = ''0.5''"

text \<open>A clock for the scenarios.\<close>

definition reloj_fijo :: "nat \<Rightarrow> string" where
  "reloj_fijo k = ''t''"

text \<open>\<open>str(e)\<close> as Starlette renders an \<open>HTTPException\<close>: the status code, a colon, the detail.\<close>

definition str_starlette :: "excepcion \<Rightarrow> string" where
  "str_starlette e = (case e of HTTPException c d \<Rightarrow> digitos c @ '': '' @ d | OSError \<Rightarrow> ''OSError'')"

text \<open>An environment for the scenarios.\<close>

definition entorno_prueba :: entorno where
  "entorno_prueba = \<lparr> nuevo_id = ''00000000deadbeef'', ahora = ''t'', disco_ok = True, str_exc = str_starlette \<rparr>"

text \<open>The server at start-up, with no model on disk.\<close>

definition servidor_inicial :: servidor where
  "servidor_inicial = \<lparr> procesador_federado = procesador_inicial, tareas = [], almacen = [] \<rparr>"

text \<open>A request whose only parameter is \<open>nombre_cliente\<close>, with the given value.\<close>

definition modelo_nombre_cliente :: "int \<Rightarrow> ModeloFederado" where
  "modelo_nombre_cliente v =
     \<lparr> tipo_modelo = ''prediccion_demanda'', parametros = [(''nombre_cliente'', PInt v)],
       giro_hash = ''0123456789abcdef'', timestamp = ''t'', metricas_validacion = [],
       version_algoritmo = ''1.0'', num_muestras_entrenamiento = 100 \<rparr>"

text \<open>A lower-case ASCII letter or an underscore.\<close>

definition es_minuscula :: "char \<Rightarrow> bool" where
  "es_minuscula c = ((97 \<le> (of_char c :: nat) \<and> (of_char c :: nat) \<le> 122) \<or> (of_char c :: nat) = 95)"

text \<open>A processor that holds three demand-prediction contributions with coefficient vectors of
  lengths 1, 3 and 1.\<close>

definition procesador_coef :: procesador where
  "procesador_coef =
     procesador_inicial\<lparr>contribuciones :=
       [''prediccion_demanda'' \<mapsto> [contrib_coef 50 [1], contrib_coef 60 [1, 2, 3], contrib_coef 70 [1]]]\<rparr>"

text \<open>The processor after two submissions of the scalar scenario.\<close>

definition procesador_dos_envios :: procesador where
  "procesador_dos_envios =
     ejecutar_tareas variates_prueba reloj_fijo 0
       [(modelo_escalar 100 1, ''a''), (modelo_escalar 200 2, ''b'')] procesador_inicial"

text \<open>A request trained on 10 samples, below the server's minimum of 50.\<close>

definition modelo_pocas_muestras :: ModeloFederado where
  "modelo_pocas_muestras = modelo_escalar 10 1"

text \<open>A request whose only parameter is \<open>RFC_emisor\<close>, which the validators of the request model
  accept.\<close>

definition modelo_rfc :: ModeloFederado where
  "modelo_rfc = (modelo_escalar 100 1)\<lparr>parametros := [(''RFC_emisor'', PInt 7)]\<rparr>"

text \<open>A request to a model type with no strategy of its own, with no parameters and the given
  \<open>r2\<close> as its only validation metric.\<close>

definition modelo_r2 :: "flt \<Rightarrow> ModeloFederado" where
  "modelo_r2 q =
     \<lparr> tipo_modelo = ''optimizacion_precios'', parametros = [],
       giro_hash = ''0123456789abcdef'', timestamp = ''t'', metricas_validacion = [(''r2'', q)],
       version_algoritmo = ''1.0'', num_muestras_entrenamiento = 100 \<rparr>"

section \<open>Sums of floats and of 64-bit integers\<close>

lemma fsum_Fin: "fsum (map Fin rs) = Fin (sum_list rs)"
  by (induction rs) (simp_all add: fsum_def)


lemma fdiv_fadd: "c \<noteq> 0 \<Longrightarrow> fdiv (fadd a b) (Fin c) = fadd (fdiv a (Fin c)) (fdiv b (Fin c))"
  by (cases a; cases b) (auto simp: add_divide_distrib)

lemma fdiv_fmul: "c \<noteq> 0 \<Longrightarrow> fdiv (fmul v (Fin p)) (Fin c) = fmul v (Fin (p / c))"
  by (cases v) (auto simp: zero_less_divide_iff not_less not_le)

lemma fdiv_fsum: "c \<noteq> 0 \<Longrightarrow> fdiv (fsum xs) (Fin c) = fsum (map (\<lambda>x. fdiv x (Fin c)) xs)"
  by (induction xs) (simp_all add: fsum_def fdiv_fadd)

lemma fdiv_ponderados:
  assumes "c \<noteq> 0"
  shows "map (\<lambda>x. fdiv x (Fin c)) (map2 fmul vs (map (\<lambda>n. Fin (f n)) ns))
           = map2 fmul vs (map (\<lambda>n. Fin (f n / c)) ns)"
proof (induction ns arbitrary: vs)
  case Nil
  then show ?case by simp
next
  case (Cons n ns)
  then show ?case using assms by (cases vs) (simp_all add: fdiv_fmul)
qed

lemma sum_list_div: "sum_list (map (\<lambda>n. of_int n / (s::rat)) ns) = of_int (sum_list ns) / s"
  by (induction ns) (simp_all add: add_divide_distrib)

lemma sum_list_word: "sum_list (ws :: 64 word list) = word_of_int (sum_list (map sint ws))"
  by (induction ws) simp_all


lemma sint_sum_list_0:
  assumes "sint (sum_list (ws :: 64 word list)) \<noteq> 0"
  shows "sum_list (map sint ws) \<noteq> 0"
  using assms unfolding sum_list_word[of ws] by auto


section \<open>Aggregation weights\<close>

lemma muestras_sint: "map sint (map c_num_muestras cs) = muestras cs"
  by (simp add: muestras_def)

lemma suma_no_cero:
  assumes "np_sum_int64 (map c_num_muestras cs) \<noteq> 0"
  shows "sum_list (muestras cs) \<noteq> 0"
  using sint_sum_list_0[of "map c_num_muestras cs"] assms
  unfolding muestras_sint np_sum_int64_def by simp


lemma normalizar_pesos_no_cero:
  assumes "np_sum_int64 (map c_num_muestras cs) \<noteq> 0"
  shows "normalizar_pesos (map c_num_muestras cs)
           = map (\<lambda>n. Fin (of_int n / of_int (np_sum_int64 (map c_num_muestras cs)))) (muestras cs)"
  using assms by (simp add: normalizar_pesos_def muestras_def comp_def)

lemma pesos_de_muestras:
  "map Fin (pesos_de cs) = map (\<lambda>n. Fin (of_int n / of_int (sum_list (muestras cs)))) (muestras cs)"
  by (simp add: pesos_de_def muestras_def comp_def)

lemma pesos_de_suma:
  assumes "sum_list (muestras cs) \<noteq> 0"
  shows "sum_list (pesos_de cs) = 1"
proof -
  have "pesos_de cs = map (\<lambda>n. of_int n / of_int (sum_list (muestras cs))) (muestras cs)"
    by (simp add: pesos_de_def muestras_def comp_def)
  then show ?thesis using assms by (simp only: sum_list_div) simp
qed

text \<open>
  The quotient that \<open>np.average\<close> takes cancels the total by which the weights were
  divided: whatever non-zero total the 64-bit sum gave, the average is the sum of the
  values times the exact weights.
\<close>

lemma promedio_exacto:
  assumes W: "np_sum_int64 (map c_num_muestras cs) \<noteq> 0"
  shows "fsum (normalizar_pesos (map c_num_muestras cs)) \<noteq> Fin 0"
    and "fdiv (fsum (map2 fmul vs (normalizar_pesos (map c_num_muestras cs))))
              (fsum (normalizar_pesos (map c_num_muestras cs)))
           = fsum (map2 fmul vs (map Fin (pesos_de cs)))"
proof -
  let ?W = "of_int (np_sum_int64 (map c_num_muestras cs)) :: rat"
  let ?N = "of_int (sum_list (muestras cs)) :: rat"
  let ?ws = "map (\<lambda>n. Fin (of_int n / ?W)) (muestras cs)"
  have N: "?N \<noteq> 0" using suma_no_cero[OF W] by simp
  have W': "?W \<noteq> 0" using W by simp
  have c: "?N / ?W \<noteq> 0" using N W' by simp
  have ws: "normalizar_pesos (map c_num_muestras cs) = ?ws"
    by (rule normalizar_pesos_no_cero[OF W])
  have "?ws = map Fin (map (\<lambda>n. of_int n / ?W) (muestras cs))" by simp
  then have s: "fsum ?ws = Fin (?N / ?W)"
    by (simp only: fsum_Fin sum_list_div)
  show "fsum (normalizar_pesos (map c_num_muestras cs)) \<noteq> Fin 0"
    unfolding ws s using c by simp
  have q: "of_int n / ?W / (?N / ?W) = of_int n / ?N" for n :: int
    using W' by simp
  have "fdiv (fsum (map2 fmul vs ?ws)) (fsum ?ws)
          = fsum (map (\<lambda>x. fdiv x (Fin (?N / ?W))) (map2 fmul vs ?ws))"
    unfolding s by (rule fdiv_fsum[OF c])
  also have "\<dots> = fsum (map2 fmul vs (map (\<lambda>n. Fin (of_int n / ?W / (?N / ?W))) (muestras cs)))"
    by (simp only: fdiv_ponderados[OF c])
  also have "\<dots> = fsum (map2 fmul vs (map Fin (pesos_de cs)))"
    unfolding q pesos_de_muestras ..
  finally show "fdiv (fsum (map2 fmul vs (normalizar_pesos (map c_num_muestras cs))))
              (fsum (normalizar_pesos (map c_num_muestras cs)))
           = fsum (map2 fmul vs (map Fin (pesos_de cs)))"
    unfolding ws .
qed

lemma metricas_otros:
  assumes "agregar_metricas cs ws ms acc = Inr res" and "k \<notin> set ms"
  shows "map_of res k = map_of acc k"
  using assms
  by (induction ms arbitrary: acc) (auto simp: update_conv' split: sum.splits)

lemma metricas_clave:
  assumes "agregar_metricas cs ws ms acc = Inr res" and "k \<in> set ms"
  shows "\<exists>x. promedio_metrica cs ws k = Inr x \<and> map_of res k = Some x"
  using assms
proof (induction ms arbitrary: acc)
  case Nil
  then show ?case by simp
next
  case (Cons m ms)
  from Cons.prems(1) obtain x where
    step: "promedio_metrica cs ws m = Inr x" and
    rest: "agregar_metricas cs ws ms (AList.update m x acc) = Inr res"
    by (auto split: sum.splits)
  show ?case
  proof (cases "k \<in> set ms")
    case True
    then show ?thesis using Cons.IH[OF rest] by blast
  next
    case False
    with Cons.prems(2) have "k = m" by simp
    with step metricas_otros[OF rest False] show ?thesis by (simp add: update_conv')
  qed
qed

lemma those_map_Some: "those (map Some xs) = Some xs"
  by (induction xs) simp_all

lemma metricas_num_of:
  "those (map num_of (map (\<lambda>c. PFloat (dict_get (c_metricas c) k (Fin 0))) cs))
     = Some (map (metrica_o_cero k) cs)"
proof -
  have "map num_of (map (\<lambda>c. PFloat (dict_get (c_metricas c) k (Fin 0))) cs)
          = map Some (map (metrica_o_cero k) cs)"
    by (simp add: dict_get_def metrica_o_cero_def)
  then show ?thesis by (simp only: those_map_Some)
qed

lemma promedio_metrica_cociente:
  assumes "promedio_metrica cs ws k = Inr x"
  shows "x = fdiv (fsum (map2 fmul (map (metrica_o_cero k) cs) ws)) (fsum ws)"
proof -
  from assms have "(if fsum ws = Fin 0 then Inl ZeroDivisionError
                    else Inr (fdiv (fsum (map2 fmul (map (metrica_o_cero k) cs) ws)) (fsum ws)))
                     = Inr x"
    unfolding promedio_metrica_def np_average_def
    by (simp only: metricas_num_of option.case)
  then show ?thesis by (auto split: if_splits)
qed












text \<open>
  The counterexample to claim C5 as stated: three contributions with \<open>2^62\<close> samples
  each, a positive count that the anonymization gate accepts.  The sum of the counts
  wraps around to \<open>-2^62\<close>, so every weight is -1 where the count over the sum of the
  counts is 1/3, and the weights sum to -3.  With the noise disabled, the three
  submissions of the coefficients 1 and 2 aggregate to -3 and -6.  A fourth such
  submission brings the 64-bit sum to 0: every weight is then infinite, and the
  aggregate that replaces the snapshot has infinite coefficients and \<open>nan\<close> metrics.
\<close>

theorem pesos_desbordados:
  "sint (num_muestras_entrenamiento (modelo_coef (2 ^ 62) [1, 2])) = 4611686018427387904
   \<and> validar_anonimizacion repr_fijo (modelo_coef (2 ^ 62) [1, 2])
   \<and> normalizar_pesos (map c_num_muestras (replicate 3 (contrib_coef (2 ^ 62) [1, 2])))
       = [Fin (- 1), Fin (- 1), Fin (- 1)]
   \<and> pesos_de (replicate 3 (contrib_coef (2 ^ 62) [1, 2])) = [1 / 3, 1 / 3, 1 / 3]
   \<and> fsum (normalizar_pesos (map c_num_muestras (replicate 3 (contrib_coef (2 ^ 62) [1, 2]))))
       = Fin (- 3)
   \<and> map_option parametros_agregados
        (obtener_modelo_agregado
           (ejecutar_tareas variates_prueba reloj_fijo 0
              [(modelo_coef (2 ^ 62) [1, 2], ''a''), (modelo_coef (2 ^ 62) [1, 2], ''b''),
               (modelo_coef (2 ^ 62) [1, 2], ''c'')]
              procesador_sin_ruido)
           ''prediccion_demanda'')
       = Some [(''coeficientes'', PList [PFloat (Fin (- 3)), PFloat (Fin (- 6))])]
   \<and> normalizar_pesos (map c_num_muestras (replicate 4 (contrib_coef (2 ^ 62) [1, 2])))
       = [PInf, PInf, PInf, PInf]
   \<and> map_option (\<lambda>m. (parametros_agregados m, metricas_agregadas m))
        (obtener_modelo_agregado
           (ejecutar_tareas variates_prueba reloj_fijo 0
              [(modelo_coef (2 ^ 62) [1, 2], ''a''), (modelo_coef (2 ^ 62) [1, 2], ''b''),
               (modelo_coef (2 ^ 62) [1, 2], ''c''), (modelo_coef (2 ^ 62) [1, 2], ''d'')]
              procesador_sin_ruido)
           ''prediccion_demanda'')
       = Some ([(''coeficientes'', PList [PFloat PInf, PFloat PInf])],
               [(''mse'', NaN), (''r2'', NaN), (''mae'', NaN)])"
  by code_simp

text \<open>
  Claim C6.  Three contributions with sample counts 100, 200 and 300 and the scalar
  parameter \<open>coef\<close> = 1, 2, 3 get the weights 1/6, 2/6, 3/6, and the generic aggregation
  yields \<open>coef\<close> = 7/3, both when called directly and when the three submissions run
  through the processor with the noise disabled.
\<close>

theorem escenario_coef_100_200_300:
  "normalizar_pesos (map c_num_muestras [contrib_escalar 100 1, contrib_escalar 200 2, contrib_escalar 300 3])
     = [Fin (1 / 6), Fin (2 / 6), Fin (3 / 6)]
   \<and> map_sum id parametros_agregados
        (agregar_modelo_generico t [contrib_escalar 100 1, contrib_escalar 200 2, contrib_escalar 300 3])
     = Inr [(''coef'', PFloat (Fin (1 * (1 / 6) + 2 * (2 / 6) + 3 * (3 / 6))))]
   \<and> 1 * (1 / 6) + 2 * (2 / 6) + 3 * (3 / 6) = (7 / 3 :: rat)
   \<and> map_option parametros_agregados
        (obtener_modelo_agregado
           (ejecutar_tareas z reloj 0
              [(modelo_escalar 100 1, ''a''), (modelo_escalar 200 2, ''b''), (modelo_escalar 300 3, ''c'')]
              procesador_sin_ruido)
           ''optimizacion_precios'')
     = Some [(''coef'', PFloat (Fin (7 / 3)))]"
  by (simp add: contrib_escalar_def modelo_escalar_def procesador_sin_ruido_def procesador_inicial_def
        procesar_modelo_anonimo_def agregar_modelo_def agregar_por_tipo_def agregar_modelo_generico_def
        normalizar_pesos_def np_sum_int64_def agregar_clave_generico_def is_number_def np_average_def
        dict_get_def fsum_def calcular_confianza_def obtener_modelo_agregado_def Let_def)

section \<open>The confidence score\<close>

lemma metricas_promedio_filter: "metricas_promedio cs = List.map_filter metrica_primaria cs"
  by (induction cs) (auto simp: List.map_filter_simps metrica_primaria_def split: option.splits)

lemma metricas_promedio_pesos:
  "metricas_promedio (map (c_num_muestras_update f) cs) = metricas_promedio cs"
  by (induction cs) (auto split: option.splits)

text \<open>
  Claim C3.  The claim bounds the score to [0,1] and makes it non-decreasing in the
  number of contributions; the code multiplies the base by the mean quality metric and
  rounds, with no clamp.  Three contributions that each report \<open>r2 = -1\<close> (a legal
  coefficient of determination of a poor model) score -0.3, and four of them score
  -0.4: below 0, and decreasing.  Such a submission passes the validators and the
  anonymization gate, and after three of them the aggregated model that a fetch returns
  carries the confidence -0.3.
\<close>

theorem confianza_sin_acotar:
  "calcular_confianza (replicate 3 (contrib_metricas 100 [(''r2'', Fin (- 1))])) = Inr (Fin (- 3 / 10))
   \<and> calcular_confianza (replicate 4 (contrib_metricas 100 [(''r2'', Fin (- 1))])) = Inr (Fin (- 4 / 10))
   \<and> validar_giro_hash (giro_hash (modelo_r2 (Fin (- 1))))
   \<and> validar_parametros (parametros (modelo_r2 (Fin (- 1))))
   \<and> validar_anonimizacion repr_fijo (modelo_r2 (Fin (- 1)))
   \<and> map_option confianza
        (obtener_modelo_agregado
           (ejecutar_tareas variates_prueba reloj_fijo 0
              [(modelo_r2 (Fin (- 1)), ''a''), (modelo_r2 (Fin (- 1)), ''b''), (modelo_r2 (Fin (- 1)), ''c'')]
              procesador_inicial)
           ''optimizacion_precios'')
       = Some (Fin (- 3 / 10))"
  by code_simp

text \<open>
  Claim C10.  The quality adjustment is gated on the first contribution alone: when
  its metrics dictionary is empty the score is the rounded base, whatever the later
  contributions report.  When the adjustment applies, the factor is the plain
  arithmetic mean of the primary metrics (\<open>r2\<close>, else \<open>accuracy\<close>) of the contributions
  that have one; the sample counts play no part in the score.
\<close>

theorem confianza_solo_primera:
  "(c_metricas c = [] \<longrightarrow>
      calcular_confianza (c # cs) = Inr (py_round3 (Fin (confianza_base (length (c # cs))))))
   \<and> (c_metricas c \<noteq> [] \<and> List.map_filter metrica_primaria (c # cs) \<noteq> [] \<longrightarrow>
      calcular_confianza (c # cs) =
        Inr (py_round3 (fmul (Fin (confianza_base (length (c # cs))))
               (fdiv (fsum (List.map_filter metrica_primaria (c # cs)))
                     (Fin (of_nat (length (List.map_filter metrica_primaria (c # cs)))))))))
   \<and> calcular_confianza (map (c_num_muestras_update f) (c # cs)) = calcular_confianza (c # cs)"
proof (intro conjI impI)
  assume "c_metricas c = []"
  then show "calcular_confianza (c # cs) = Inr (py_round3 (Fin (confianza_base (length (c # cs)))))"
    by (simp add: calcular_confianza_def confianza_base_def Let_def)
next
  assume "c_metricas c \<noteq> [] \<and> List.map_filter metrica_primaria (c # cs) \<noteq> []"
  then show "calcular_confianza (c # cs) =
        Inr (py_round3 (fmul (Fin (confianza_base (length (c # cs))))
               (fdiv (fsum (List.map_filter metrica_primaria (c # cs)))
                     (Fin (of_nat (length (List.map_filter metrica_primaria (c # cs))))))))"
    unfolding metricas_promedio_filter[symmetric]
    by (simp add: calcular_confianza_def confianza_base_def np_mean_def Let_def)
next
  have "metricas_promedio (map (c_num_muestras_update f) (c # cs)) = metricas_promedio (c # cs)"
    by (rule metricas_promedio_pesos)
  then show "calcular_confianza (map (c_num_muestras_update f) (c # cs)) = calcular_confianza (c # cs)"
    unfolding calcular_confianza_def by (simp add: Let_def)
qed

theorem confianza_solo_primera_witness:
  "calcular_confianza
     [contrib_metricas 100 [], contrib_metricas 100 [(''r2'', Fin (1 / 2))],
      contrib_metricas 100 [(''accuracy'', Fin (1 / 2))]]
     = Inr (Fin (3 / 10))
   \<and> calcular_confianza
     [contrib_metricas 50 [(''mse'', Fin 2)], contrib_metricas 1000 [(''r2'', Fin 1), (''accuracy'', Fin 0)],
      contrib_metricas 50 [(''accuracy'', Fin 0)]]
     = Inr (Fin (3 / 20))"
  using confianza_solo_primera
          [of "contrib_metricas 100 []"
              "[contrib_metricas 100 [(''r2'', Fin (1 / 2))], contrib_metricas 100 [(''accuracy'', Fin (1 / 2))]]" id]
        confianza_solo_primera
          [of "contrib_metricas 50 [(''mse'', Fin 2)]"
              "[contrib_metricas 1000 [(''r2'', Fin 1), (''accuracy'', Fin 0)], contrib_metricas 50 [(''accuracy'', Fin 0)]]" id]
  by (simp add: contrib_metricas_def confianza_base_def round_half_even_def fsum_def
        metrica_primaria_def List.map_filter_simps)

section \<open>The generic aggregation\<close>

lemma np_average_Inr:
  assumes "np_average vals ws = Inr x"
  shows "\<exists>vs. those (map num_of vals) = Some vs
              \<and> x = fdiv (fsum (map2 fmul vs ws)) (fsum ws)"
  using assms by (auto simp: np_average_def split: option.splits if_splits)

lemma valor_o_cero_get: "num_of (dict_get (c_parametros c) k (PInt 0)) = valor_o_cero k c"
  by (simp add: dict_get_def valor_o_cero_def split: option.splits)

lemma clave_generico_otros:
  assumes "agregar_clave_generico cs ws k' v' acc = Inr acc'" and "k \<noteq> k'"
  shows "map_of acc' k = map_of acc k"
  using assms
  by (auto simp: agregar_clave_generico_def update_conv' split: if_splits sum.splits)

lemma parametros_generico_otros:
  assumes "agregar_parametros_generico cs ws items acc = Inr res" and "k \<notin> fst ` set items"
  shows "map_of res k = map_of acc k"
  using assms
proof (induction items arbitrary: acc)
  case Nil
  then show ?case by simp
next
  case (Cons kv items)
  obtain k' v' where kv: "kv = (k', v')" by (cases kv)
  from Cons.prems(1) kv obtain acc' where
    step: "agregar_clave_generico cs ws k' v' acc = Inr acc'" and
    rest: "agregar_parametros_generico cs ws items acc' = Inr res"
    by (auto split: sum.splits)
  from Cons.prems(2) kv have "k \<noteq> k'" and "k \<notin> fst ` set items" by auto
  then show ?case
    using Cons.IH[OF rest] clave_generico_otros[OF step] by simp
qed

lemma parametros_generico_clave:
  assumes "agregar_parametros_generico cs ws items acc = Inr res"
    and "distinct (map fst items)" and "(k, v) \<in> set items" and "is_number v"
  shows "\<exists>x. np_average (map (\<lambda>c. dict_get (c_parametros c) k (PInt 0)) cs) ws = Inr x
             \<and> map_of res k = Some (PFloat x)"
  using assms
proof (induction items arbitrary: acc)
  case Nil
  then show ?case by simp
next
  case (Cons kv items)
  obtain k' v' where kv: "kv = (k', v')" by (cases kv)
  from Cons.prems(1) kv obtain acc' where
    step: "agregar_clave_generico cs ws k' v' acc = Inr acc'" and
    rest: "agregar_parametros_generico cs ws items acc' = Inr res"
    by (auto split: sum.splits)
  show ?case
  proof (cases "(k, v) = kv")
    case True
    then have eq: "k' = k" "v' = v" using kv by auto
    from Cons.prems(2) kv eq have notin: "k \<notin> fst ` set items" by auto
    from step eq Cons.prems(4) obtain x where
      x: "np_average (map (\<lambda>c. dict_get (c_parametros c) k (PInt 0)) cs) ws = Inr x"
      and acc': "acc' = AList.update k (PFloat x) acc"
      by (auto simp: agregar_clave_generico_def split: sum.splits)
    have "map_of res k = map_of acc' k"
      by (rule parametros_generico_otros[OF rest notin])
    with x acc' show ?thesis by (simp add: update_conv')
  next
    case False
    with Cons.prems(3) have "(k, v) \<in> set items" by auto
    moreover from Cons.prems(2) have "distinct (map fst items)" by simp
    ultimately show ?thesis
      using Cons.IH[OF rest] Cons.prems(4) by blast
  qed
qed

text \<open>
  Claim C8.  When the generic aggregation of a contribution list succeeds, every scalar
  key of the first contribution is stored as the weighted average that \<open>np.average\<close>
  takes over all contributions, where a contribution that lacks the key supplies 0 and
  keeps its full weight: the sum of value times weight over the sum of the weights.
  Unless the 64-bit sum of the sample counts is zero, this is the sum over all
  contributions of value times sample count over the total of the sample counts, and
  these weights sum to 1: there is no renormalisation over the contributions that
  define the key.  Every metric key of the first contribution is combined the same
  way, a missing metric read as 0.
\<close>

theorem generico_faltante_cuenta_cero:
  assumes "agregar_modelo_generico t (c # cs) = Inr m"
    and "distinct (map fst (c_parametros c))"
  shows "(\<forall>(k, v) \<in> set (c_parametros c). is_number v \<longrightarrow>
            (\<exists>vs. those (map (valor_o_cero k) (c # cs)) = Some vs
                 \<and> map_of (parametros_agregados m) k
                     = Some (PFloat
                         (fdiv (fsum (map2 fmul vs (normalizar_pesos (map c_num_muestras (c # cs)))))
                               (fsum (normalizar_pesos (map c_num_muestras (c # cs))))))
                 \<and> (np_sum_int64 (map c_num_muestras (c # cs)) \<noteq> 0 \<longrightarrow>
                      map_of (parametros_agregados m) k
                        = Some (PFloat (fsum (map2 fmul vs (map Fin (pesos_de (c # cs)))))))))
       \<and> (\<forall>k \<in> fst ` set (c_metricas c).
            map_of (metricas_agregadas m) k
              = Some (fdiv (fsum (map2 fmul (map (metrica_o_cero k) (c # cs))
                                    (normalizar_pesos (map c_num_muestras (c # cs)))))
                           (fsum (normalizar_pesos (map c_num_muestras (c # cs)))))
            \<and> (np_sum_int64 (map c_num_muestras (c # cs)) \<noteq> 0 \<longrightarrow>
                 map_of (metricas_agregadas m) k
                   = Some (fsum (map2 fmul (map (metrica_o_cero k) (c # cs))
                                   (map Fin (pesos_de (c # cs)))))))
       \<and> (np_sum_int64 (map c_num_muestras (c # cs)) \<noteq> 0 \<longrightarrow>
            sum_list (pesos_de (c # cs)) = 1)"
proof -
  let ?cs = "c # cs"
  let ?ws = "normalizar_pesos (map c_num_muestras ?cs)"
  from assms(1) obtain params metrs where
    P: "agregar_parametros_generico ?cs ?ws (c_parametros c) [] = Inr params" and
    M: "agregar_metricas ?cs ?ws (map fst (c_metricas c)) [] = Inr metrs" and
    mp: "parametros_agregados m = params" and mm: "metricas_agregadas m = metrs"
    by (auto simp: agregar_modelo_generico_def Let_def simp del: agregar_metricas.simps
          split: sum.splits)
  have A: "\<exists>vs. those (map (valor_o_cero k) ?cs) = Some vs
                 \<and> map_of (parametros_agregados m) k
                     = Some (PFloat (fdiv (fsum (map2 fmul vs ?ws)) (fsum ?ws)))
                 \<and> (np_sum_int64 (map c_num_muestras ?cs) \<noteq> 0 \<longrightarrow>
                      map_of (parametros_agregados m) k
                        = Some (PFloat (fsum (map2 fmul vs (map Fin (pesos_de ?cs))))))"
    if "(k, v) \<in> set (c_parametros c)" and "is_number v" for k v
  proof -
    from parametros_generico_clave[OF P assms(2) that] obtain x where
      x: "np_average (map (\<lambda>c. dict_get (c_parametros c) k (PInt 0)) ?cs) ?ws = Inr x"
      and r: "map_of params k = Some (PFloat x)" by blast
    from np_average_Inr[OF x] obtain vs where
      vs: "those (map num_of (map (\<lambda>c. dict_get (c_parametros c) k (PInt 0)) ?cs)) = Some vs"
      and xe: "x = fdiv (fsum (map2 fmul vs ?ws)) (fsum ?ws)" by blast
    have eq: "map num_of (map (\<lambda>c. dict_get (c_parametros c) k (PInt 0)) ?cs) = map (valor_o_cero k) ?cs"
      by (simp add: valor_o_cero_get)
    have v: "those (map (valor_o_cero k) ?cs) = Some vs"
      using vs unfolding eq .
    have g: "map_of (parametros_agregados m) k = Some (PFloat (fdiv (fsum (map2 fmul vs ?ws)) (fsum ?ws)))"
      using r xe mp by simp
    have "map_of (parametros_agregados m) k = Some (PFloat (fsum (map2 fmul vs (map Fin (pesos_de ?cs)))))"
      if W: "np_sum_int64 (map c_num_muestras ?cs) \<noteq> 0"
      using g unfolding promedio_exacto(2)[OF W] .
    with v g show ?thesis by blast
  qed
  have B: "map_of (metricas_agregadas m) k
              = Some (fdiv (fsum (map2 fmul (map (metrica_o_cero k) ?cs) ?ws)) (fsum ?ws))
            \<and> (np_sum_int64 (map c_num_muestras ?cs) \<noteq> 0 \<longrightarrow>
                 map_of (metricas_agregadas m) k
                   = Some (fsum (map2 fmul (map (metrica_o_cero k) ?cs) (map Fin (pesos_de ?cs)))))"
    if "k \<in> fst ` set (c_metricas c)" for k
  proof -
    from that have "k \<in> set (map fst (c_metricas c))" by simp
    from metricas_clave[OF M this] obtain x where
      x: "promedio_metrica ?cs ?ws k = Inr x" and r: "map_of metrs k = Some x" by blast
    have g: "map_of (metricas_agregadas m) k
              = Some (fdiv (fsum (map2 fmul (map (metrica_o_cero k) ?cs) ?ws)) (fsum ?ws))"
      using r promedio_metrica_cociente[OF x] mm by simp
    have "map_of (metricas_agregadas m) k
                   = Some (fsum (map2 fmul (map (metrica_o_cero k) ?cs) (map Fin (pesos_de ?cs))))"
      if W: "np_sum_int64 (map c_num_muestras ?cs) \<noteq> 0"
      using g unfolding promedio_exacto(2)[OF W] .
    with g show ?thesis by blast
  qed
  have U: "np_sum_int64 (map c_num_muestras ?cs) \<noteq> 0 \<longrightarrow> sum_list (pesos_de ?cs) = 1"
    using suma_no_cero pesos_de_suma by blast
  have A': "\<forall>(k, v) \<in> set (c_parametros c). is_number v \<longrightarrow>
            (\<exists>vs. those (map (valor_o_cero k) ?cs) = Some vs
                 \<and> map_of (parametros_agregados m) k
                     = Some (PFloat (fdiv (fsum (map2 fmul vs ?ws)) (fsum ?ws)))
                 \<and> (np_sum_int64 (map c_num_muestras ?cs) \<noteq> 0 \<longrightarrow>
                      map_of (parametros_agregados m) k
                        = Some (PFloat (fsum (map2 fmul vs (map Fin (pesos_de ?cs)))))))"
    using A by blast
  have B': "\<forall>k \<in> fst ` set (c_metricas c).
            map_of (metricas_agregadas m) k
              = Some (fdiv (fsum (map2 fmul (map (metrica_o_cero k) ?cs) ?ws)) (fsum ?ws))
            \<and> (np_sum_int64 (map c_num_muestras ?cs) \<noteq> 0 \<longrightarrow>
                 map_of (metricas_agregadas m) k
                   = Some (fsum (map2 fmul (map (metrica_o_cero k) ?cs) (map Fin (pesos_de ?cs)))))"
    using B by blast
  show ?thesis
    by (rule conjI[OF A' conjI[OF B' U]])
qed

theorem generico_faltante_cuenta_cero_witness:
  "agregar_modelo_generico ''t''
     [contrib_completa 100 [(''coef'', PInt 6)] [(''r2'', Fin (9 / 10))],
      contrib_completa 200 [] [],
      contrib_completa 300 [(''coef'', PInt 6)] [(''r2'', Fin (9 / 10))]]
     = Inr modelo_generico_esperado
   \<and> those (map (valor_o_cero ''coef'')
        [contrib_completa 100 [(''coef'', PInt 6)] [(''r2'', Fin (9 / 10))],
         contrib_completa 200 [] [],
         contrib_completa 300 [(''coef'', PInt 6)] [(''r2'', Fin (9 / 10))]]) = Some [Fin 6, Fin 0, Fin 6]
   \<and> pesos_de
        [contrib_completa 100 [(''coef'', PInt 6)] [(''r2'', Fin (9 / 10))],
         contrib_completa 200 [] [],
         contrib_completa 300 [(''coef'', PInt 6)] [(''r2'', Fin (9 / 10))]] = [1 / 6, 1 / 3, 1 / 2]
   \<and> map_of (parametros_agregados modelo_generico_esperado) ''coef'' = Some (PFloat (Fin 4))
   \<and> map_of (metricas_agregadas modelo_generico_esperado) ''r2'' = Some (Fin (3 / 5))"
proof -
  let ?c = "contrib_completa 100 [(''coef'', PInt 6)] [(''r2'', Fin (9 / 10))]"
  let ?cs = "[contrib_completa 200 [] [], contrib_completa 300 [(''coef'', PInt 6)] [(''r2'', Fin (9 / 10))]]"
  have h: "agregar_modelo_generico ''t'' (?c # ?cs) = Inr modelo_generico_esperado"
    by code_simp
  have d: "distinct (map fst (c_parametros ?c))"
    by (simp add: contrib_completa_def)
  from generico_faltante_cuenta_cero[OF h d] h show ?thesis
    by (simp add: contrib_completa_def modelo_generico_esperado_def valor_o_cero_def pesos_de_def
          muestras_def)
qed

section \<open>The privacy noise\<close>












section \<open>Mismatched coefficient vectors\<close>

lemma to_nd_number: "is_number v \<Longrightarrow> to_nd v = Some (Sc (valor_num v))"
  by (cases v) (simp_all add: is_number_def valor_num_def)

lemma those_to_nd_numbers:
  "list_all is_number xs \<Longrightarrow> those (map to_nd xs) = Some (map (\<lambda>v. Sc (valor_num v)) xs)"
  by (induction xs) (simp_all add: to_nd_number)

lemma shape_vector: "shape (Ar (map (\<lambda>v. Sc (f v)) xs)) = [length xs]"
  by (cases xs) simp_all

lemma regular_vector: "regular (Ar (map (\<lambda>v. Sc (f v)) xs))"
  by (cases xs) (simp_all add: list_all_iff)

lemma np_array_vector:
  "list_all is_number xs \<Longrightarrow> np_array (PList xs) = Inr (Ar (map (\<lambda>v. Sc (valor_num v)) xs))"
  using regular_vector[of valor_num xs] by (simp add: np_array_def those_to_nd_numbers)

lemma shape_nd_scale: "shape (nd_scale w a) = shape a"
  by (induction a rule: shape.induct) simp_all

lemma vector_coeficientes_Some:
  assumes "vector_coeficientes c = Some xs"
  shows "map_of (c_parametros c) ''coeficientes'' = Some (PList xs)" and "list_all is_number xs"
  using assms by (auto simp: vector_coeficientes_def split: option.splits pyval.splits if_splits)

lemma arrays_ponderados_vectores:
  assumes "\<forall>(c, w) \<in> set cws. vector_coeficientes c \<noteq> None"
  shows "\<exists>arrays. arrays_ponderados ''coeficientes'' cws = Inr arrays
           \<and> map shape arrays = map (\<lambda>(c, w). [length (the (vector_coeficientes c))]) cws"
  using assms
proof (induction cws)
  case Nil
  then show ?case by simp
next
  case (Cons cw cws)
  obtain c w where cw: "cw = (c, w)" by (cases cw)
  from Cons.prems cw obtain xs where xs: "vector_coeficientes c = Some xs" by auto
  from Cons.IH Cons.prems obtain arrays where
    a: "arrays_ponderados ''coeficientes'' cws = Inr arrays"
    and s: "map shape arrays = map (\<lambda>(c, w). [length (the (vector_coeficientes c))]) cws"
    by auto
  show ?case
    using cw xs a s vector_coeficientes_Some[OF xs]
    by (simp add: np_array_vector shape_nd_scale shape_vector del: nd_scale.simps)
qed

lemma np_sum_axis0_mismatch:
  assumes "b \<in> set as" and "shape b \<noteq> shape a"
  shows "np_sum_axis0 (a # as) = Inl NumpyError"
  using assms by (auto simp: list_all_iff)

lemma agregar_array_mismatch:
  assumes len: "length ws = length cs"
    and all: "\<forall>x \<in> set (c # cs). vector_coeficientes x \<noteq> None"
    and diff: "\<exists>x \<in> set cs. map_option length (vector_coeficientes x) \<noteq> map_option length (vector_coeficientes c)"
  shows "agregar_array ''coeficientes'' c (c # cs) (w # ws) acc = Inl NumpyError"
proof -
  from all obtain xs where xs: "vector_coeficientes c = Some xs" by auto
  have "\<forall>(x, w) \<in> set (zip (c # cs) (w # ws)). vector_coeficientes x \<noteq> None"
    using all by (auto dest: set_zip_leftD)
  from arrays_ponderados_vectores[OF this] obtain arrays where
    a: "arrays_ponderados ''coeficientes'' (zip (c # cs) (w # ws)) = Inr arrays"
    and s: "map shape arrays
              = map (\<lambda>(c, w). [length (the (vector_coeficientes c))]) (zip (c # cs) (w # ws))"
    by blast
  from s obtain a0 as where arr: "arrays = a0 # as" by (cases arrays) auto
  from s arr xs have s0: "shape a0 = [length xs]"
    and ss: "map shape as = map (\<lambda>(c, w). [length (the (vector_coeficientes c))]) (zip cs ws)"
    by auto
  from diff obtain x where x: "x \<in> set cs"
    and nx: "map_option length (vector_coeficientes x) \<noteq> map_option length (vector_coeficientes c)"
    by blast
  from x len obtain wx where xw: "(x, wx) \<in> set (zip cs ws)"
    by (metis in_set_impl_in_set_zip1)
  from all x obtain ys where ys: "vector_coeficientes x = Some ys" by auto
  from nx xs ys have "length ys \<noteq> length xs" by simp
  moreover from xw ys have "[length ys] \<in> set (map shape as)"
    unfolding ss by force
  then obtain b where "b \<in> set as" and "shape b = [length ys]" by auto
  ultimately have "np_sum_axis0 (a0 # as) = Inl NumpyError"
    using s0 by (intro np_sum_axis0_mismatch[of b]) simp_all
  with a arr vector_coeficientes_Some(1)[OF xs]
  show ?thesis by (simp add: agregar_array_def)
qed

text \<open>
  Claim C4, as amended.  The claim has a mismatch of coefficient lengths drop that key
  alone.  In the code the sum of the weighted vectors raises, nothing catches it, and
  the whole aggregation is lost: when every contribution carries a vector of numbers
  under \<open>coeficientes\<close> and the lengths are not all equal, the demand-prediction
  aggregation returns the NumPy error, for any trees and metrics; and
  \<open>_agregar_modelo\<close> then leaves the processor as it was, so no snapshot is written.
\<close>

theorem prediccion_longitudes_distintas_aborta:
  assumes "\<forall>x \<in> set (c # cs). vector_coeficientes x \<noteq> None"
    and "\<exists>x \<in> set cs. map_option length (vector_coeficientes x) \<noteq> map_option length (vector_coeficientes c)"
  shows "agregar_modelo_prediccion t (c # cs) = Inl NumpyError
       \<and> (contribuciones s ''prediccion_demanda'' = Some (c # cs)
            \<and> min_contribuciones (configuracion_privacidad s) \<le> length (c # cs)
          \<longrightarrow> agregar_modelo z t ''prediccion_demanda'' s = (Some NumpyError, s))"
proof -
  obtain w ws where p: "normalizar_pesos (map c_num_muestras (c # cs)) = w # ws"
    and l: "length ws = length cs"
    by (simp add: normalizar_pesos_def)
  have "agregar_array ''coeficientes'' c (c # cs) (w # ws) [] = Inl NumpyError"
    by (rule agregar_array_mismatch[OF l assms])
  with p have A: "agregar_modelo_prediccion t (c # cs) = Inl NumpyError"
    by (simp add: agregar_modelo_prediccion_def)
  then show ?thesis
    by (auto simp: agregar_modelo_def agregar_por_tipo_def)
qed

theorem prediccion_longitudes_distintas_aborta_witness:
  "agregar_modelo_prediccion ''t'' [contrib_coef 50 [1], contrib_coef 60 [1, 2, 3], contrib_coef 70 [1]]
     = Inl NumpyError
   \<and> agregar_modelo variates_prueba ''t'' ''prediccion_demanda'' procesador_coef
     = (Some NumpyError, procesador_coef)"
proof -
  let ?c = "contrib_coef 50 [1]"
  let ?cs = "[contrib_coef 60 [1, 2, 3], contrib_coef 70 [1]]"
  have h2: "\<forall>x \<in> set (?c # ?cs). vector_coeficientes x \<noteq> None"
    by (simp add: contrib_coef_def vector_coeficientes_def is_number_def)
  have h3: "\<exists>x \<in> set ?cs. map_option length (vector_coeficientes x)
              \<noteq> map_option length (vector_coeficientes ?c)"
    by (simp add: contrib_coef_def vector_coeficientes_def is_number_def)
  from prediccion_longitudes_distintas_aborta[OF h2 h3, of "''t''" procesador_coef variates_prueba]
  show ?thesis
    by (simp add: procesador_coef_def procesador_inicial_def)
qed

text \<open>
  The counterexample to claim C4 as stated: three contributions with coefficient
  vectors of lengths 2, 3 and 2 (and one tree and an \<open>r2\<close> metric each).  The
  aggregation does not complete without the key: it raises.
\<close>

theorem prediccion_longitudes_2_3_2_aborta:
  "agregar_modelo_prediccion ''t'' [contrib_coef 100 [1, 2], contrib_coef 100 [1, 2, 3], contrib_coef 100 [1, 2]]
     = Inl NumpyError"
  by code_simp

section \<open>Quorum and the snapshot registry\<close>

lemma agregar_modelo_frame:
  "contribuciones (snd (agregar_modelo z t tipo s)) = contribuciones s"
  "configuracion_privacidad (snd (agregar_modelo z t tipo s)) = configuracion_privacidad s"
  by (auto simp: agregar_modelo_def split: option.splits sum.splits prod.splits)

lemma agregar_modelo_activos:
  assumes "contribuciones s tipo = Some cs"
    and "min_contribuciones (configuracion_privacidad s) \<le> length cs"
  shows "modelos_activos (snd (agregar_modelo z t tipo s))
           = (case instantanea z t (configuracion_privacidad s) (ruido_pos s) tipo cs of
                Some a \<Rightarrow> (modelos_activos s)(tipo \<mapsto> a)
              | None \<Rightarrow> modelos_activos s)"
  using assms
  by (auto simp: agregar_modelo_def instantanea_def split: option.splits sum.splits prod.splits)

lemma procesar_contribuciones:
  "contribuciones (snd (procesar_modelo_anonimo z t m cid s))
     = (contribuciones s)(tipo_modelo m \<mapsto> almacenadas s (tipo_modelo m) @ [contribucion_de m cid])"
  by (simp add: procesar_modelo_anonimo_def Let_def agregar_modelo_frame almacenadas_def
        contribucion_de_def)

lemma procesar_configuracion:
  "configuracion_privacidad (snd (procesar_modelo_anonimo z t m cid s)) = configuracion_privacidad s"
  by (simp add: procesar_modelo_anonimo_def Let_def agregar_modelo_frame)

lemma procesar_activos:
  "modelos_activos (snd (procesar_modelo_anonimo z t m cid s))
     = (if min_contribuciones (configuracion_privacidad s)
            \<le> length (almacenadas s (tipo_modelo m) @ [contribucion_de m cid])
        then (case instantanea z t (configuracion_privacidad s) (ruido_pos s) (tipo_modelo m)
                     (almacenadas s (tipo_modelo m) @ [contribucion_de m cid]) of
                Some a \<Rightarrow> (modelos_activos s)(tipo_modelo m \<mapsto> a)
              | None \<Rightarrow> modelos_activos s)
        else modelos_activos s)"
proof -
  let ?all = "almacenadas s (tipo_modelo m) @ [contribucion_de m cid]"
  let ?s' = "s\<lparr>contribuciones := (contribuciones s)(tipo_modelo m \<mapsto> ?all)\<rparr>"
  show ?thesis
  proof (cases "min_contribuciones (configuracion_privacidad s) \<le> length ?all")
    case True
    have c: "contribuciones ?s' (tipo_modelo m) = Some ?all" by simp
    have q: "min_contribuciones (configuracion_privacidad ?s') \<le> length ?all" using True by simp
    have "procesar_modelo_anonimo z t m cid s = agregar_modelo z t (tipo_modelo m) ?s'"
      using True by (simp add: procesar_modelo_anonimo_def Let_def almacenadas_def contribucion_de_def)
    with agregar_modelo_activos[OF c q, of z t] True show ?thesis
      by (simp split: option.splits)
  next
    case False
    then show ?thesis
      by (simp add: procesar_modelo_anonimo_def Let_def almacenadas_def contribucion_de_def)
  qed
qed

lemma almacenadas_procesar:
  "almacenadas (snd (procesar_modelo_anonimo z t m cid s)) tipo
     = (if tipo = tipo_modelo m then almacenadas s tipo @ [contribucion_de m cid]
        else almacenadas s tipo)"
  by (simp add: almacenadas_def procesar_contribuciones)

lemma quorum_cumplido_procesar:
  assumes "quorum_cumplido s"
  shows "quorum_cumplido (snd (procesar_modelo_anonimo z t m cid s))"
  unfolding quorum_cumplido_def
proof (intro allI impI)
  fix tipo
  let ?s' = "snd (procesar_modelo_anonimo z t m cid s)"
  assume a: "modelos_activos ?s' tipo \<noteq> None"
  show "min_contribuciones (configuracion_privacidad ?s') \<le> length (almacenadas ?s' tipo)"
  proof (cases "modelos_activos s tipo \<noteq> None")
    case True
    with assms have "min_contribuciones (configuracion_privacidad s) \<le> length (almacenadas s tipo)"
      by (simp add: quorum_cumplido_def)
    then show ?thesis
      by (auto simp: procesar_configuracion almacenadas_procesar)
  next
    case False
    with a have "tipo = tipo_modelo m
        \<and> min_contribuciones (configuracion_privacidad s)
            \<le> length (almacenadas s (tipo_modelo m) @ [contribucion_de m cid])"
      by (auto simp: procesar_activos split: if_splits option.splits)
    then show ?thesis
      by (simp add: procesar_configuracion almacenadas_procesar)
  qed
qed

lemma ejecutar_tareas_inv:
  assumes "quorum_cumplido s"
  shows "quorum_cumplido (ejecutar_tareas z reloj k envios s)
       \<and> configuracion_privacidad (ejecutar_tareas z reloj k envios s) = configuracion_privacidad s
       \<and> length (almacenadas (ejecutar_tareas z reloj k envios s) tipo)
           = length (almacenadas s tipo) + length (filter (\<lambda>(m, cid). tipo_modelo m = tipo) envios)"
  using assms
proof (induction envios arbitrary: s k)
  case Nil
  then show ?case by simp
next
  case (Cons a envios)
  obtain m cid where a: "a = (m, cid)" by (cases a)
  let ?s' = "snd (procesar_modelo_anonimo z (reloj k) m cid s)"
  have q: "quorum_cumplido ?s'" by (rule quorum_cumplido_procesar[OF Cons.prems])
  from Cons.IH[OF q, of "Suc k"] show ?case
    by (simp add: a procesar_configuracion almacenadas_procesar)
qed

lemma quorum_cumplido_inicial: "quorum_cumplido procesador_inicial"
  by (simp add: quorum_cumplido_def procesador_inicial_def)

text \<open>
  Claim C2, as amended.  Starting from the empty processor, after any sequence of
  submissions the contributions stored for a type are the submissions of that type,
  and an aggregated model exists for the type only if at least 3 (the quorum) are
  stored: with 2 the fetch returns \<open>None\<close>.  The converse of the claim fails, since an
  aggregation can raise.  Each submission appends its contribution; it leaves the
  snapshots of the other types alone; and once the quorum is met it runs a fresh
  aggregation over all stored contributions of its type, whose result, if there is
  one, replaces the snapshot as a whole (it is a function of the contribution list, the
  configuration and the noise generator, not of the previous snapshot), while a run
  that raises leaves the previous snapshot in place.
\<close>

theorem agregado_solo_con_quorum:
  "length (almacenadas (ejecutar_tareas z reloj k envios procesador_inicial) tipo)
     = length (filter (\<lambda>(m, cid). tipo_modelo m = tipo) envios)
   \<and> (obtener_modelo_agregado (ejecutar_tareas z reloj k envios procesador_inicial) tipo \<noteq> None
        \<longrightarrow> 3 \<le> length (filter (\<lambda>(m, cid). tipo_modelo m = tipo) envios))
   \<and> almacenadas (snd (procesar_modelo_anonimo z t m cid s)) (tipo_modelo m)
       = almacenadas s (tipo_modelo m) @ [contribucion_de m cid]
   \<and> (tipo \<noteq> tipo_modelo m \<longrightarrow>
        obtener_modelo_agregado (snd (procesar_modelo_anonimo z t m cid s)) tipo
          = obtener_modelo_agregado s tipo)
   \<and> obtener_modelo_agregado (snd (procesar_modelo_anonimo z t m cid s)) (tipo_modelo m)
       = (if min_contribuciones (configuracion_privacidad s)
              \<le> length (almacenadas s (tipo_modelo m) @ [contribucion_de m cid])
          then (case instantanea z t (configuracion_privacidad s) (ruido_pos s) (tipo_modelo m)
                       (almacenadas s (tipo_modelo m) @ [contribucion_de m cid]) of
                  Some a \<Rightarrow> Some a
                | None \<Rightarrow> obtener_modelo_agregado s (tipo_modelo m))
          else obtener_modelo_agregado s (tipo_modelo m))"
proof -
  let ?s = "ejecutar_tareas z reloj k envios procesador_inicial"
  from ejecutar_tareas_inv[OF quorum_cumplido_inicial, of z reloj k envios tipo]
  have inv: "quorum_cumplido ?s"
    and cfg: "configuracion_privacidad ?s = configuracion_privacidad procesador_inicial"
    and len: "length (almacenadas ?s tipo)
                = length (almacenadas procesador_inicial tipo)
                  + length (filter (\<lambda>(m, cid). tipo_modelo m = tipo) envios)"
    by blast+
  have l0: "length (almacenadas ?s tipo) = length (filter (\<lambda>(m, cid). tipo_modelo m = tipo) envios)"
    using len by (simp add: almacenadas_def procesador_inicial_def)
  have q: "obtener_modelo_agregado ?s tipo \<noteq> None
             \<longrightarrow> 3 \<le> length (filter (\<lambda>(m, cid). tipo_modelo m = tipo) envios)"
    using inv cfg l0 by (auto simp: quorum_cumplido_def obtener_modelo_agregado_def procesador_inicial_def)
  have o: "tipo \<noteq> tipo_modelo m \<longrightarrow>
        obtener_modelo_agregado (snd (procesar_modelo_anonimo z t m cid s)) tipo
          = obtener_modelo_agregado s tipo"
    by (auto simp: obtener_modelo_agregado_def procesar_activos split: option.splits)
  have w: "obtener_modelo_agregado (snd (procesar_modelo_anonimo z t m cid s)) (tipo_modelo m)
       = (if min_contribuciones (configuracion_privacidad s)
              \<le> length (almacenadas s (tipo_modelo m) @ [contribucion_de m cid])
          then (case instantanea z t (configuracion_privacidad s) (ruido_pos s) (tipo_modelo m)
                       (almacenadas s (tipo_modelo m) @ [contribucion_de m cid]) of
                  Some a \<Rightarrow> Some a
                | None \<Rightarrow> obtener_modelo_agregado s (tipo_modelo m))
          else obtener_modelo_agregado s (tipo_modelo m))"
    by (auto simp: obtener_modelo_agregado_def procesar_activos split: option.splits)
  from l0 q o w show ?thesis
    by (simp add: almacenadas_procesar)
qed

theorem agregado_solo_con_quorum_witness:
  "length (almacenadas procesador_dos_envios ''optimizacion_precios'') = 2
   \<and> obtener_modelo_agregado procesador_dos_envios ''optimizacion_precios'' = None
   \<and> map_option parametros_agregados
        (obtener_modelo_agregado
           (snd (procesar_modelo_anonimo variates_prueba ''t'' (modelo_escalar 300 3) ''c''
                   procesador_dos_envios))
           ''optimizacion_precios'')
       = Some [(''coef'', PFloat (Fin (10 / 3)))]"
proof -
  have e: "map_option parametros_agregados
        (obtener_modelo_agregado
           (snd (procesar_modelo_anonimo variates_prueba ''t'' (modelo_escalar 300 3) ''c''
                   procesador_dos_envios))
           ''optimizacion_precios'')
       = Some [(''coef'', PFloat (Fin (10 / 3)))]"
    by code_simp
  from agregado_solo_con_quorum
         [of variates_prueba reloj_fijo 0
             "[(modelo_escalar 100 1, ''a''), (modelo_escalar 200 2, ''b'')]"
             "''optimizacion_precios''" "''t''" "modelo_escalar 300 3" "''c''" procesador_dos_envios]
       e
  show ?thesis
    by (auto simp: procesador_dos_envios_def modelo_escalar_def)
qed

text \<open>
  The counterexample to claim C2 as stated: three submissions to the demand-prediction
  model that pass the anonymization gate, with coefficient vectors of lengths 2, 3 and
  2.  The stored count reaches the quorum of 3, and no aggregated model exists.
\<close>

theorem quorum_sin_agregado:
  "validar_anonimizacion repr_fijo (modelo_coef 100 [1, 2])
   \<and> validar_anonimizacion repr_fijo (modelo_coef 100 [1, 2, 3])
   \<and> length (almacenadas
        (ejecutar_tareas variates_prueba reloj_fijo 0
           [(modelo_coef 100 [1, 2], ''a''), (modelo_coef 100 [1, 2, 3], ''b''), (modelo_coef 100 [1, 2], ''c'')]
           procesador_inicial) ''prediccion_demanda'') = 3
   \<and> min_contribuciones (configuracion_privacidad procesador_inicial) = 3
   \<and> obtener_modelo_agregado
        (ejecutar_tareas variates_prueba reloj_fijo 0
           [(modelo_coef 100 [1, 2], ''a''), (modelo_coef 100 [1, 2, 3], ''b''), (modelo_coef 100 [1, 2], ''c'')]
           procesador_inicial) ''prediccion_demanda'' = None"
  by code_simp

section \<open>The submit-model endpoint\<close>

text \<open>
  Claim C9.  When the anonymization gate rejects a submission, the handler answers
  with status 500 and the detail "Error procesando modelo: " followed by the text of
  the 400 exception that its own \<open>except Exception\<close> clause caught; the server state
  is untouched.  No outcome of the handler has status 400: it is 200 when the gate
  accepts and the metadata file is written, and 500 otherwise.
\<close>

theorem rechazo_responde_500:
  "(\<not> validar_anonimizacion fr modelo \<longrightarrow>
      enviar_modelo_federado fr env modelo srv
        = (Inl (HTTPException 500
                  (''Error procesando modelo: ''
                     @ str_exc env (HTTPException 400 detalle_anonimizacion))), srv))
   \<and> codigo_http (fst (enviar_modelo_federado fr env modelo srv)) \<noteq> 400
   \<and> (codigo_http (fst (enviar_modelo_federado fr env modelo srv)) = 200
        \<longleftrightarrow> validar_anonimizacion fr modelo \<and> disco_ok env)
   \<and> (codigo_http (fst (enviar_modelo_federado fr env modelo srv)) = 500
        \<longleftrightarrow> \<not> (validar_anonimizacion fr modelo \<and> disco_ok env))"
  by (simp add: enviar_modelo_federado_def cuerpo_enviar_modelo_def)

theorem rechazo_responde_500_witness:
  "validar_giro_hash (giro_hash modelo_pocas_muestras)
   \<and> validar_parametros (parametros modelo_pocas_muestras)
   \<and> \<not> validar_anonimizacion repr_fijo modelo_pocas_muestras
   \<and> enviar_modelo_federado repr_fijo entorno_prueba modelo_pocas_muestras servidor_inicial
       = (Inl (HTTPException 500 (''Error procesando modelo: 400: '' @ detalle_anonimizacion)),
          servidor_inicial)
   \<and> codigo_http (fst (enviar_modelo_federado repr_fijo entorno_prueba modelo_pocas_muestras
                          servidor_inicial))
       = 500"
proof -
  have p: "validar_giro_hash (giro_hash modelo_pocas_muestras)
           \<and> validar_parametros (parametros modelo_pocas_muestras)"
    by code_simp
  have v: "\<not> validar_anonimizacion repr_fijo modelo_pocas_muestras"
    by code_simp
  have s: "str_exc entorno_prueba (HTTPException 400 detalle_anonimizacion)
             = ''400: '' @ detalle_anonimizacion"
    by code_simp
  from rechazo_responde_500[of repr_fijo modelo_pocas_muestras entorno_prueba servidor_inicial] p v s
  show ?thesis by simp
qed

section \<open>The anonymization gate\<close>

lemma algun_identificador_iff:
  "algun_identificador ids s \<longleftrightarrow> (\<exists>i \<in> set ids. sublist i s)"
  by (induction ids) auto

lemma of_char_lt_256: "(of_char c :: nat) < 256"
proof -
  have "(of_char c :: nat) mod 256 < 256" by simp
  then show ?thesis by simp
qed

lemma escape_char_minuscula:
  assumes "es_minuscula (lower_char x)"
  shows "escape_char x = [x]"
proof -
  let ?n = "of_char x :: nat"
  have lt: "?n < 256" by (rule of_char_lt_256)
  show ?thesis
  proof (cases "(65 \<le> ?n \<and> ?n \<le> 90) \<or> (192 \<le> ?n \<and> ?n \<le> 222 \<and> ?n \<noteq> 215)")
    case True
    then have l: "lower_char x = char_of (?n + 32)" by (auto simp: lower_char_def Let_def)
    have "(of_char (lower_char x) :: nat) = ?n + 32"
      unfolding l using True by auto
    with assms True have "65 \<le> ?n \<and> ?n \<le> 90" by (auto simp: es_minuscula_def)
    then show ?thesis by (auto simp: escape_char_def Let_def)
  next
    case False
    then have "lower_char x = x" by (auto simp: lower_char_def Let_def)
    with assms have "(97 \<le> ?n \<and> ?n \<le> 122) \<or> ?n = 95" by (simp add: es_minuscula_def)
    then show ?thesis by (auto simp: escape_char_def Let_def)
  qed
qed

lemma concat_escape_minusculas:
  assumes "\<forall>x \<in> set xs. es_minuscula (lower_char x)"
  shows "concat (map escape_char xs) = xs"
  using assms by (induction xs) (simp_all add: escape_char_minuscula)

lemma sublist_lower_encode:
  assumes "sublist i (lower k)" and "\<forall>c \<in> set i. es_minuscula c"
  shows "sublist i (lower (encode_basestring_ascii k))"
proof -
  from sublist_map_rightE[OF assms(1)[unfolded lower_def]] obtain k2 where
    k2: "sublist k2 k" and i: "i = map lower_char k2" by blast
  from k2 obtain k1 k3 where k: "k = k1 @ k2 @ k3" by (auto simp: sublist_def)
  from assms(2) i have "\<forall>x \<in> set k2. es_minuscula (lower_char x)" by simp
  then have "concat (map escape_char k2) = k2" by (rule concat_escape_minusculas)
  then have "lower (encode_basestring_ascii k)
      = (lower ([CHR 0x22] @ concat (map escape_char k1))) @ i
         @ lower (concat (map escape_char k3) @ [CHR 0x22])"
    by (simp add: encode_basestring_ascii_def k lower_def i)
  then show ?thesis by (simp add: sublist_def) blast
qed

lemma sublist_join:
  assumes "x \<in> set xs"
  shows "sublist x (join sep xs)"
  using assms
proof (induction sep xs rule: join.induct)
  case (1 sep)
  then show ?case by simp
next
  case (2 sep y)
  then show ?case by simp
next
  case (3 sep y z zs)
  show ?case
  proof (cases "x = y")
    case True
    then show ?thesis by simp
  next
    case False
    with 3 have "sublist x (join sep (z # zs))" by simp
    then obtain ps ss where "join sep (z # zs) = ps @ x @ ss" by (auto simp: sublist_def)
    then have "join sep (y # z # zs) = (y @ sep @ ps) @ x @ ss" by simp
    then show ?thesis unfolding sublist_def by blast
  qed
qed

lemma json_items_clave:
  assumes "(k, v) \<in> set kvs"
  shows "\<exists>item \<in> set (json_items fr kvs). prefix (encode_basestring_ascii k) item"
  using assms by (induction kvs) auto

lemma sublist_clave_dumps:
  assumes "(k, v) \<in> set kvs"
  shows "sublist (encode_basestring_ascii k) (json_dumps fr (PDict kvs))"
proof -
  from json_items_clave[OF assms] obtain item where
    it: "item \<in> set (json_items fr kvs)" and p: "prefix (encode_basestring_ascii k) item" by blast
  from p have "sublist (encode_basestring_ascii k) item" by simp
  also have "sublist item (join '', '' (json_items fr kvs))" by (rule sublist_join[OF it])
  also have "sublist \<dots> (json_dumps fr (PDict kvs))"
    by (simp add: sublist_def) (metis append_Cons append_Nil)
  finally show ?thesis .
qed

lemma identificadores_minusculas:
  "\<forall>i \<in> set identificadores_prohibidos. \<forall>c \<in> set i. es_minuscula c"
  by (simp add: identificadores_prohibidos_def es_minuscula_def)

lemma clave_prohibida_rechazada:
  assumes "(k, v) \<in> set (parametros m)" and "i \<in> set identificadores_prohibidos"
    and "sublist i (lower k)"
  shows "\<not> validar_anonimizacion fr m"
proof -
  from identificadores_minusculas assms(2) have "\<forall>c \<in> set i. es_minuscula c" by blast
  from sublist_lower_encode[OF assms(3) this]
  have "sublist i (lower (encode_basestring_ascii k))" .
  also have "sublist \<dots> (lower (json_dumps fr (PDict (parametros m))))"
    unfolding lower_def by (rule map_mono_sublist[OF sublist_clave_dumps[OF assms(1)]])
  finally have "algun_identificador identificadores_prohibidos
                  (lower (json_dumps fr (PDict (parametros m))))"
    using assms(2) by (auto simp: algun_identificador_iff)
  then show ?thesis by (simp add: validar_anonimizacion_def)
qed

text \<open>
  Claim C1.  The gate rejects a submission exactly when the segment hash is shorter
  than 16 characters, or the lower-cased JSON text of the parameters contains one of
  the forbidden identifiers (among them empresa, nombre, email, telefono, direccion
  and rfc), or the sample count is below 50.  In particular a parameter key that
  contains a forbidden identifier in any letter case is rejected whatever its value,
  and so is every request that the validators of the request model refuse.
  A rejected submission is answered with an error, and the server is left as it was:
  no background task is scheduled, so the contribution is neither stored nor
  aggregated, and no metadata is written.
\<close>

lemma validar_parametros_False:
  assumes "\<not> validar_parametros kvs"
  shows "\<exists>k v p. (k, v) \<in> set kvs \<and> p \<in> set claves_prohibidas \<and> sublist p (lower k)"
  using assms
proof (induction kvs)
  case Nil
  then show ?case by simp
next
  case (Cons kv kvs)
  obtain k v where kv: "kv = (k, v)" by (cases kv)
  show ?case
  proof (cases "list_ex (\<lambda>p. sublist p (lower k)) claves_prohibidas")
    case True
    then obtain p where "p \<in> set claves_prohibidas" and "sublist p (lower k)"
      by (auto simp: list_ex_iff)
    with kv show ?thesis by auto
  next
    case False
    with Cons.prems kv have "\<not> validar_parametros kvs" by simp
    from Cons.IH[OF this] show ?thesis by auto
  qed
qed

lemma clave_prohibida_identificador:
  assumes "p \<in> set claves_prohibidas"
  shows "\<exists>i \<in> set identificadores_prohibidos. sublist i p"
proof (cases "p = ''empresa_id''")
  case True
  have "''empresa_id'' = [] @ ''empresa'' @ ''_id''" by simp
  then have "sublist ''empresa'' ''empresa_id''" unfolding sublist_def by blast
  with True show ?thesis by (auto simp: identificadores_prohibidos_def)
next
  case False
  with assms have "p \<in> set identificadores_prohibidos"
    by (auto simp: claves_prohibidas_def identificadores_prohibidos_def)
  then show ?thesis by auto
qed

lemma validadores_del_modelo_rechazados:
  assumes "\<not> validar_giro_hash (giro_hash m) \<or> \<not> validar_parametros (parametros m)"
  shows "\<not> validar_anonimizacion fr m"
proof (cases "validar_giro_hash (giro_hash m)")
  case False
  then show ?thesis
    by (simp add: validar_giro_hash_def validar_anonimizacion_def split: if_splits)
next
  case True
  with assms have "\<not> validar_parametros (parametros m)" by simp
  from validar_parametros_False[OF this] obtain k v p where
    kv: "(k, v) \<in> set (parametros m)" and p: "p \<in> set claves_prohibidas"
    and s: "sublist p (lower k)" by blast
  from clave_prohibida_identificador[OF p] obtain i where
    i: "i \<in> set identificadores_prohibidos" and ip: "sublist i p" by blast
  from ip s have "sublist i (lower k)" by (rule sublist_order.order.trans)
  from clave_prohibida_rechazada[OF kv i this] show ?thesis .
qed

theorem validacion_anonimizacion:
  "(validar_anonimizacion fr m \<longleftrightarrow>
      \<not> (length (giro_hash m) < 16
         \<or> (\<exists>i \<in> set identificadores_prohibidos.
               sublist i (lower (json_dumps fr (PDict (parametros m)))))
         \<or> sint (num_muestras_entrenamiento m) < 50))
   \<and> set [''empresa'', ''nombre'', ''email'', ''telefono'', ''direccion'', ''rfc'']
        \<subseteq> set identificadores_prohibidos
   \<and> (\<forall>k v i. (k, v) \<in> set (parametros m) \<and> i \<in> set identificadores_prohibidos
                 \<and> sublist i (lower k) \<longrightarrow> \<not> validar_anonimizacion fr m)
   \<and> (\<not> validar_giro_hash (giro_hash m) \<or> \<not> validar_parametros (parametros m)
        \<longrightarrow> \<not> validar_anonimizacion fr m)
   \<and> (\<not> validar_anonimizacion fr m \<longrightarrow>
        (\<exists>e. fst (enviar_modelo_federado fr env m srv) = Inl e)
        \<and> snd (enviar_modelo_federado fr env m srv) = srv)"
proof -
  have 1: "validar_anonimizacion fr m \<longleftrightarrow>
      \<not> (length (giro_hash m) < 16
         \<or> (\<exists>i \<in> set identificadores_prohibidos.
               sublist i (lower (json_dumps fr (PDict (parametros m)))))
         \<or> sint (num_muestras_entrenamiento m) < 50)"
    by (auto simp: validar_anonimizacion_def algun_identificador_iff)
  have 2: "set [''empresa'', ''nombre'', ''email'', ''telefono'', ''direccion'', ''rfc'']
        \<subseteq> set identificadores_prohibidos"
    by (simp add: identificadores_prohibidos_def)
  have 3: "\<forall>k v i. (k, v) \<in> set (parametros m) \<and> i \<in> set identificadores_prohibidos
                 \<and> sublist i (lower k) \<longrightarrow> \<not> validar_anonimizacion fr m"
    using clave_prohibida_rechazada by blast
  have 4: "\<not> validar_anonimizacion fr m \<longrightarrow>
        (\<exists>e. fst (enviar_modelo_federado fr env m srv) = Inl e)
        \<and> snd (enviar_modelo_federado fr env m srv) = srv"
    by (simp add: enviar_modelo_federado_def cuerpo_enviar_modelo_def)
  have 5: "\<not> validar_giro_hash (giro_hash m) \<or> \<not> validar_parametros (parametros m)
        \<longrightarrow> \<not> validar_anonimizacion fr m"
    using validadores_del_modelo_rechazados by blast
  from 1 2 3 4 5 show ?thesis by blast
qed

theorem validacion_anonimizacion_witness:
  "\<not> validar_anonimizacion repr_fijo (modelo_nombre_cliente 5)
   \<and> \<not> validar_anonimizacion repr_fijo (modelo_nombre_cliente 1000000)
   \<and> \<not> validar_parametros (parametros (modelo_nombre_cliente 5))
   \<and> validar_parametros (parametros modelo_rfc)
   \<and> validar_giro_hash (giro_hash modelo_rfc)
   \<and> \<not> validar_anonimizacion repr_fijo modelo_rfc
   \<and> snd (enviar_modelo_federado repr_fijo entorno_prueba modelo_rfc servidor_inicial)
       = servidor_inicial
   \<and> validar_anonimizacion repr_fijo (modelo_escalar 100 1)"
proof -
  have k: "(''nombre_cliente'', PInt v) \<in> set (parametros (modelo_nombre_cliente v))" for v
    by (simp add: modelo_nombre_cliente_def)
  have k2: "(''RFC_emisor'', PInt 7) \<in> set (parametros modelo_rfc)"
    by (simp add: modelo_rfc_def)
  have i: "''nombre'' \<in> set identificadores_prohibidos" "''rfc'' \<in> set identificadores_prohibidos"
    by (simp_all add: identificadores_prohibidos_def)
  have s: "sublist ''nombre'' (lower ''nombre_cliente'')" "sublist ''rfc'' (lower ''RFC_emisor'')"
    by code_simp+
  have p: "\<not> validar_parametros (parametros (modelo_nombre_cliente 5))"
    "validar_parametros (parametros modelo_rfc)" "validar_giro_hash (giro_hash modelo_rfc)"
    by code_simp+
  have ok: "validar_anonimizacion repr_fijo (modelo_escalar 100 1)"
    by code_simp
  from validacion_anonimizacion[of repr_fijo "modelo_nombre_cliente 5" entorno_prueba servidor_inicial]
       validacion_anonimizacion[of repr_fijo "modelo_nombre_cliente 1000000" entorno_prueba servidor_inicial]
       validacion_anonimizacion[of repr_fijo modelo_rfc entorno_prueba servidor_inicial]
       k k2 i s p ok
  show ?thesis by metis
qed

end
